theory Spec2Isabelle
  imports Complex_Main "HOL-Library.Multiset"
begin

section \<open>Intervyo analytics utilities (Backend/utils/analytics.js)\<close>

text \<open>
  The analytics module is a collection of functions over arrays of JavaScript
  values. The embedding follows the language as the module uses it.
  \<^item> A JavaScript number is a \<open>num\<close>: a finite value, one of the two infinities, or
    NaN. Every arithmetic operation returns the IEEE 754 binary64 result: the exact
    result rounded to the nearest double, a tie going to the even significand, and
    a result beyond the largest double becoming an infinity. The two zeros are
    not told apart: no operation of the module can see the difference, the only
    divisors that can be zero being lengths and a quotient of positive numbers.
  \<^item> \<open>Math.round\<close> returns the integer nearest to its argument, a tie going
    towards plus infinity. \<open>Math.sqrt\<close> returns the correctly rounded root, and
    \<open>Math.pow(x, 2)\<close> the correctly rounded product \<open>x * x\<close>.
  \<^item> A property read on a plain object finds the object's own keys and then the
    members every object inherits from \<open>Object.prototype\<close>. \<open>Object.entries\<close>
    lists the own keys that are array indices first, in ascending order, and then
    the other keys in the order of their creation.
  \<^item> \<open>Array.prototype.sort\<close> is stable. When the comparator is not consistent,
    which here happens only when a key is NaN, the order of the result is
    implementation-defined, and the model returns no list.
  \<^item> A timestamp is an integer number of milliseconds of local time, in a time zone
    whose offset does not change; the current time is a parameter \<open>now\<close>.
\<close>

subsection \<open>Numbers\<close>

datatype num = Fin real | PosInf | NegInf | NaN

text \<open>The integer nearest to a real, a tie going to the even one.\<close>

definition rne :: "real \<Rightarrow> int" where
  "rne y =
     (let f = \<lfloor>y\<rfloor> in
      if y - of_int f < 1 / 2 then f
      else if 1 / 2 < y - of_int f then f + 1
      else if even f then f else f + 1)"

text \<open>
  The binary exponent of a non-zero real, not below that of the smallest normal
  double; a double with this exponent is a multiple of \<open>2 powi (expo x - 52)\<close>.
\<close>

definition expo :: "real \<Rightarrow> int" where
  "expo x = max \<lfloor>log 2 \<bar>x\<bar>\<rfloor> (- 1022)"

text \<open>Rounding of an exact result to binary64.\<close>

definition fl :: "real \<Rightarrow> num" where
  "fl x =
     (if x = 0 then Fin 0
      else let q = 2 powi (expo x - 52);
               r = of_int (rne (x / q)) * q
           in if \<bar>r\<bar> \<ge> 2 powi 1024 then (if x > 0 then PosInf else NegInf)
              else Fin r)"

definition signedInf :: "bool \<Rightarrow> num" where
  "signedInf positive = (if positive then PosInf else NegInf)"

fun fneg :: "num \<Rightarrow> num" where
  "fneg (Fin x) = Fin (- x)"
| "fneg PosInf = NegInf"
| "fneg NegInf = PosInf"
| "fneg NaN = NaN"

fun fadd :: "num \<Rightarrow> num \<Rightarrow> num" where
  "fadd (Fin x) (Fin y) = fl (x + y)"
| "fadd NaN b = NaN"
| "fadd a NaN = NaN"
| "fadd PosInf NegInf = NaN"
| "fadd NegInf PosInf = NaN"
| "fadd PosInf b = PosInf"
| "fadd a PosInf = PosInf"
| "fadd NegInf b = NegInf"
| "fadd a NegInf = NegInf"

definition fsub :: "num \<Rightarrow> num \<Rightarrow> num" where
  "fsub a b = fadd a (fneg b)"

fun fmul :: "num \<Rightarrow> num \<Rightarrow> num" where
  "fmul (Fin x) (Fin y) = fl (x * y)"
| "fmul NaN b = NaN"
| "fmul a NaN = NaN"
| "fmul (Fin x) PosInf = (if x = 0 then NaN else signedInf (x > 0))"
| "fmul (Fin x) NegInf = (if x = 0 then NaN else signedInf (x < 0))"
| "fmul PosInf (Fin y) = (if y = 0 then NaN else signedInf (y > 0))"
| "fmul NegInf (Fin y) = (if y = 0 then NaN else signedInf (y < 0))"
| "fmul PosInf PosInf = PosInf"
| "fmul PosInf NegInf = NegInf"
| "fmul NegInf PosInf = NegInf"
| "fmul NegInf NegInf = PosInf"

fun fdiv :: "num \<Rightarrow> num \<Rightarrow> num" where
  "fdiv (Fin x) (Fin y) =
     (if y = 0 then (if x = 0 then NaN else signedInf (x > 0)) else fl (x / y))"
| "fdiv NaN b = NaN"
| "fdiv a NaN = NaN"
| "fdiv (Fin x) PosInf = Fin 0"
| "fdiv (Fin x) NegInf = Fin 0"
| "fdiv PosInf (Fin y) = signedInf (y \<ge> 0)"
| "fdiv NegInf (Fin y) = signedInf (y < 0)"
| "fdiv PosInf b = NaN"
| "fdiv NegInf b = NaN"

fun fsqrt :: "num \<Rightarrow> num" where
  "fsqrt (Fin x) = (if x < 0 then NaN else fl (sqrt x))"
| "fsqrt PosInf = PosInf"
| "fsqrt NegInf = NaN"
| "fsqrt NaN = NaN"

text \<open>The comparisons \<open><\<close> and \<open><=\<close>; a comparison with NaN is false.\<close>

fun flt :: "num \<Rightarrow> num \<Rightarrow> bool" where
  "flt (Fin x) (Fin y) = (x < y)"
| "flt NaN b = False"
| "flt a NaN = False"
| "flt a NegInf = False"
| "flt PosInf b = False"
| "flt NegInf b = True"
| "flt a PosInf = True"

fun fle :: "num \<Rightarrow> num \<Rightarrow> bool" where
  "fle (Fin x) (Fin y) = (x \<le> y)"
| "fle NaN b = False"
| "fle a NaN = False"
| "fle NegInf b = True"
| "fle a PosInf = True"
| "fle a NegInf = False"
| "fle PosInf b = False"

definition fgt :: "num \<Rightarrow> num \<Rightarrow> bool" where
  "fgt a b = flt b a"

definition fge :: "num \<Rightarrow> num \<Rightarrow> bool" where
  "fge a b = fle b a"

fun Math_round :: "num \<Rightarrow> num" where
  "Math_round (Fin x) = Fin (of_int \<lfloor>x + 1 / 2\<rfloor>)"
| "Math_round n = n"

fun Math_abs :: "num \<Rightarrow> num" where
  "Math_abs (Fin x) = Fin \<bar>x\<bar>"
| "Math_abs PosInf = PosInf"
| "Math_abs NegInf = PosInf"
| "Math_abs NaN = NaN"

definition Math_min :: "num \<Rightarrow> num \<Rightarrow> num" where
  "Math_min a b = (if a = NaN \<or> b = NaN then NaN else if flt b a then b else a)"

definition Math_max :: "num \<Rightarrow> num \<Rightarrow> num" where
  "Math_max a b = (if a = NaN \<or> b = NaN then NaN else if flt a b then b else a)"

text \<open>A length or a count as a number.\<close>

definition ofNat :: "nat \<Rightarrow> num" where
  "ofNat n = fl (real n)"

subsection \<open>JavaScript values\<close>

datatype jsval =
    JNumber num
  | JUndefined
  | JNull
  | JBool bool
  | JStr string
  | JObj

text \<open>\<open>typeof s === 'number' && !isNaN(s)\<close>: the infinities pass.\<close>

fun isValidNumber :: "jsval \<Rightarrow> bool" where
  "isValidNumber (JNumber n) = (n \<noteq> NaN)"
| "isValidNumber v = False"

fun numberOf :: "jsval \<Rightarrow> num" where
  "numberOf (JNumber n) = n"
| "numberOf v = NaN"

text \<open>The values that \<open>||\<close> and \<open>!\<close> treat as false.\<close>

fun falsy :: "jsval \<Rightarrow> bool" where
  "falsy (JNumber n) = (n = Fin 0 \<or> n = NaN)"
| "falsy JUndefined = True"
| "falsy JNull = True"
| "falsy (JBool b) = (\<not> b)"
| "falsy (JStr s) = (s = [])"
| "falsy JObj = False"

definition js_or :: "jsval \<Rightarrow> jsval \<Rightarrow> jsval" where
  "js_or a b = (if falsy a then b else a)"

text \<open>\<open>xs.filter(s => typeof s === 'number' && !isNaN(s))\<close>, read as numbers.\<close>

definition validNumbers :: "jsval list \<Rightarrow> num list" where
  "validNumbers xs = map numberOf (filter isValidNumber xs)"

text \<open>\<open>xs.reduce((acc, x) => acc + x, 0)\<close>\<close>

definition reduce_sum :: "num list \<Rightarrow> num" where
  "reduce_sum xs = foldl (\<lambda>acc x. fadd acc x) (Fin 0) xs"

subsection \<open>Sorting\<close>

text \<open>
  \<open>xs.sort(cmp)\<close> for a consistent comparator: the stable sort that puts \<open>x\<close>
  after \<open>y\<close> exactly when \<open>cmp(x, y) > 0\<close>. A comparator result of NaN counts
  as 0.
\<close>

fun insertBy :: "('a \<Rightarrow> 'a \<Rightarrow> num) \<Rightarrow> 'a \<Rightarrow> 'a list \<Rightarrow> 'a list" where
  "insertBy cmp x [] = [x]"
| "insertBy cmp x (y # ys) =
     (if fgt (cmp x y) (Fin 0) then y # insertBy cmp x ys else x # y # ys)"

definition sortBy :: "('a \<Rightarrow> 'a \<Rightarrow> num) \<Rightarrow> 'a list \<Rightarrow> 'a list" where
  "sortBy cmp xs = foldr (insertBy cmp) xs []"

text \<open>
  A comparator that subtracts numeric keys is consistent on a list unless some
  key is NaN, which then compares as equal to every key, while two other keys
  differ.
\<close>

definition consistentKeys :: "num list \<Rightarrow> bool" where
  "consistentKeys ks =
     (NaN \<notin> set ks \<or> length (remdups (filter (\<lambda>k. k \<noteq> NaN) ks)) \<le> 1)"

subsection \<open>Metrics library\<close>

definition calculateAverageScore :: "jsval list \<Rightarrow> num" where
  "calculateAverageScore scores =
     (if length scores = 0 then Fin 0
      else let validScores = validNumbers scores in
        if length validScores = 0 then Fin 0
        else let sum = reduce_sum validScores in
          fdiv (Math_round (fmul (fdiv sum (ofNat (length validScores))) (Fin 100))) (Fin 100))"

definition calculatePercentile :: "num \<Rightarrow> jsval list \<Rightarrow> num" where
  "calculatePercentile score allScores =
     (if length allScores = 0 then Fin 0
      else let validScores = validNumbers allScores in
        if length validScores = 0 then Fin 0
        else let sortedScores = sortBy (\<lambda>a b. fsub a b) validScores;
                 belowCount = length (filter (\<lambda>s. flt s score) sortedScores)
             in Math_round
                  (fmul (fdiv (ofNat belowCount) (ofNat (length sortedScores))) (Fin 100)))"

definition calculateStandardDeviation :: "jsval list \<Rightarrow> num" where
  "calculateStandardDeviation vals =
     (if length vals = 0 then Fin 0
      else let validValues = validNumbers vals in
        if length validValues = 0 then Fin 0
        else let mean = fdiv (reduce_sum validValues) (ofNat (length validValues));
                 squaredDiffs = map (\<lambda>v. fmul (fsub v mean) (fsub v mean)) validValues;
                 avgSquaredDiff = fdiv (reduce_sum squaredDiffs) (ofNat (length validValues))
             in fdiv (Math_round (fmul (fsqrt avgSquaredDiff) (Fin 100))) (Fin 100))"

subsection \<open>Interview metrics\<close>

text \<open>
  The argument of \<open>calculateInterviewMetrics\<close>. A field that is \<open>undefined\<close> is
  \<open>None\<close>; the destructuring pattern then supplies the default.
\<close>

record interviewData =
  totalQuestions :: "num option"
  correctAnswers :: "num option"
  duration :: "num option"
  scores :: "jsval list option"
  difficulty :: "string option"

record metrics =
  m_accuracy :: num
  m_averageScore :: num
  m_weightedScore :: num
  m_questionsPerMinute :: num
  m_grade :: string
  m_totalQuestions :: num
  m_correctAnswers :: num
  m_duration :: num
  m_difficulty :: string

definition orDefault :: "'a option \<Rightarrow> 'a \<Rightarrow> 'a" where
  "orDefault v d = (case v of None \<Rightarrow> d | Some x \<Rightarrow> x)"

text \<open>
  \<open>String.prototype.toLowerCase\<close> on the ASCII letters. A character outside
  ASCII is left as it is; no such character has a lower-case form that occurs in
  a key read by the module.
\<close>

definition toLowerChar :: "char \<Rightarrow> char" where
  "toLowerChar c =
     (case map_of (zip ''ABCDEFGHIJKLMNOPQRSTUVWXYZ'' ''abcdefghijklmnopqrstuvwxyz'') c of
        None \<Rightarrow> c
      | Some l \<Rightarrow> l)"

definition toLowerCase :: "string \<Rightarrow> string" where
  "toLowerCase s = map toLowerChar s"

text \<open>
  The names of the members that every plain object inherits from
  \<open>Object.prototype\<close>. Each of them is a function or an object, hence truthy and
  not a number.
\<close>

definition objectPrototypeNames :: "string list" where
  "objectPrototypeNames =
     [''constructor'', ''__defineGetter__'', ''__defineSetter__'', ''hasOwnProperty'',
      ''__lookupGetter__'', ''__lookupSetter__'', ''isPrototypeOf'',
      ''propertyIsEnumerable'', ''toString'', ''valueOf'', ''__proto__'',
      ''toLocaleString'']"

text \<open>
  The result of reading a property of an object whose own values are of type
  \<open>'v\<close>: an own value, an inherited member, or \<open>undefined\<close>.
\<close>

datatype 'v property = Own 'v | Inherited | Missing

definition getProperty :: "(string \<rightharpoonup> 'v) \<Rightarrow> string \<Rightarrow> 'v property" where
  "getProperty obj key =
     (case obj key of
        Some v \<Rightarrow> Own v
      | None \<Rightarrow> if key \<in> set objectPrototypeNames then Inherited else Missing)"

definition difficultyMultipliers :: "string \<rightharpoonup> num" where
  "difficultyMultipliers =
     [''easy'' \<mapsto> fl 0.8, ''medium'' \<mapsto> fl 1.0, ''hard'' \<mapsto> fl 1.3, ''expert'' \<mapsto> fl 1.5]"

text \<open>
  \<open>difficultyMultipliers[key] || 1.0\<close>, as the number that the product
  \<open>averageScore * multiplier\<close> reads: an inherited member is truthy and converts
  to NaN.
\<close>

definition multiplierOf :: "string \<Rightarrow> num" where
  "multiplierOf d =
     (case getProperty difficultyMultipliers (toLowerCase d) of
        Own m \<Rightarrow> if falsy (JNumber m) then fl 1.0 else m
      | Inherited \<Rightarrow> NaN
      | Missing \<Rightarrow> fl 1.0)"

definition gradeOf :: "num \<Rightarrow> string" where
  "gradeOf weightedScore =
     (if fge weightedScore (Fin 90) then ''A+''
      else if fge weightedScore (Fin 85) then ''A''
      else if fge weightedScore (Fin 80) then ''B+''
      else if fge weightedScore (Fin 75) then ''B''
      else if fge weightedScore (Fin 70) then ''C+''
      else if fge weightedScore (Fin 65) then ''C''
      else if fge weightedScore (Fin 60) then ''D''
      else ''F'')"

definition calculateInterviewMetrics :: "interviewData \<Rightarrow> metrics" where
  "calculateInterviewMetrics interviewData =
     (let totalQuestions = orDefault (totalQuestions interviewData) (Fin 0);
          correctAnswers = orDefault (correctAnswers interviewData) (Fin 0);
          duration = orDefault (duration interviewData) (Fin 0);
          scores = orDefault (scores interviewData) [];
          difficulty = orDefault (difficulty interviewData) ''medium'';
          accuracy = (if fgt totalQuestions (Fin 0)
                      then Math_round (fmul (fdiv correctAnswers totalQuestions) (Fin 100))
                      else Fin 0);
          averageScore = calculateAverageScore scores;
          questionsPerMinute =
            (if fgt duration (Fin 0)
             then fdiv (Math_round
                          (fmul (fdiv totalQuestions (fdiv duration (Fin 60))) (Fin 100)))
                       (Fin 100)
             else Fin 0);
          multiplier = multiplierOf difficulty;
          weightedScore =
            fdiv (Math_round (fmul (fmul averageScore multiplier) (Fin 100))) (Fin 100)
      in \<lparr> m_accuracy = accuracy,
           m_averageScore = averageScore,
           m_weightedScore = weightedScore,
           m_questionsPerMinute = questionsPerMinute,
           m_grade = gradeOf weightedScore,
           m_totalQuestions = totalQuestions,
           m_correctAnswers = correctAnswers,
           m_duration = duration,
           m_difficulty = difficulty \<rparr>)"

subsection \<open>Progress analytics\<close>

text \<open>
  An interview record as the aggregator reads it: \<open>createdAt\<close> in milliseconds,
  the \<open>score\<close> as stored, and \<open>skills\<close>, which is \<open>None\<close> unless it is an array.
\<close>

record interview =
  createdAt :: int
  score :: jsval
  skills :: "string list option"

record skillAverage =
  sa_skill :: string
  sa_average :: num
  sa_count :: nat

text \<open>The result of a sort: a list, or an order that the language leaves open.\<close>

datatype 'a sorted = Ordered "'a list" | ImplementationDefined

record progress =
  p_totalInterviews :: nat
  p_averageScore :: num
  p_improvement :: num
  p_consistency :: num
  p_streak :: nat
  p_topSkills :: "skillAverage sorted"
  p_weakAreas :: "skillAverage sorted"
  p_trend :: string
  p_recentScores :: "jsval list option"
  p_firstScore :: "jsval option"
  p_latestScore :: "jsval option"

text \<open>The exception that ends a call.\<close>

datatype failure = TypeError

definition msPerDay :: int where
  "msPerDay = 1000 * 60 * 60 * 24"

text \<open>\<open>d.setHours(0, 0, 0, 0)\<close>: the start of the calendar day of \<open>d\<close>.\<close>

definition setHoursZero :: "int \<Rightarrow> int" where
  "setHoursZero t = t - t mod msPerDay"

text \<open>
  The streak loop, run over the interviews from the latest to the earliest; the
  state is the pair of counters \<open>streak\<close> and \<open>currentStreak\<close>, and \<open>break\<close>
  returns the streak reached.
\<close>

fun streakLoop :: "int \<Rightarrow> interview list \<Rightarrow> nat \<Rightarrow> nat \<Rightarrow> nat" where
  "streakLoop today [] streak currentStreak = streak"
| "streakLoop today (i # rest) streak currentStreak =
     (let interviewDate = setHoursZero (createdAt i);
          daysDiff = (today - interviewDate) div msPerDay
      in if daysDiff = int currentStreak
         then streakLoop today rest (streak + 1) (currentStreak + 1)
         else streak)"

definition calculateStreak :: "int \<Rightarrow> interview list \<Rightarrow> nat" where
  "calculateStreak now sortedInterviews =
     streakLoop (setHoursZero now) (rev sortedInterviews) 0 0"

text \<open>
  \<open>skillScores\<close>, an object from skill name to the array of the scores seen for
  it: its own keys in the order of their creation.
\<close>

type_synonym skillScores = "(string \<times> jsval list) list"

text \<open>
  The body of the inner \<open>forEach\<close>. A name that is not yet a key and is not
  inherited gets an empty array, and the score is pushed. A name that is
  inherited from \<open>Object.prototype\<close> is found truthy, so no array is made, and
  the member found has no \<open>push\<close>: the call raises a TypeError.
\<close>

definition pushSkill :: "skillScores \<Rightarrow> string \<Rightarrow> jsval \<Rightarrow> failure + skillScores" where
  "pushSkill m skill v =
     (case getProperty (map_of m) skill of
        Own vs \<Rightarrow> Inr (map (\<lambda>(k, ws). if k = skill then (k, ws @ [v]) else (k, ws)) m)
      | Inherited \<Rightarrow> Inl TypeError
      | Missing \<Rightarrow> Inr (m @ [(skill, [v])]))"

fun pushSkills :: "skillScores \<Rightarrow> string list \<Rightarrow> jsval \<Rightarrow> failure + skillScores" where
  "pushSkills m [] v = Inr m"
| "pushSkills m (skill # rest) v =
     (case pushSkill m skill v of
        Inl e \<Rightarrow> Inl e
      | Inr m' \<Rightarrow> pushSkills m' rest v)"

fun collectSkills :: "skillScores \<Rightarrow> interview list \<Rightarrow> failure + skillScores" where
  "collectSkills m [] = Inr m"
| "collectSkills m (i # rest) =
     (case skills i of
        None \<Rightarrow> collectSkills m rest
      | Some ss \<Rightarrow>
          (case pushSkills m ss (js_or (score i) (JNumber (Fin 0))) of
             Inl e \<Rightarrow> Inl e
           | Inr m' \<Rightarrow> collectSkills m' rest))"

text \<open>
  A key is an array index when it is the decimal form, without a leading zero,
  of an integer from 0 to \<open>2^32 - 2\<close>.
\<close>

definition digitValue :: "char \<Rightarrow> nat option" where
  "digitValue c = map_of (zip ''0123456789'' [0, 1, 2, 3, 4, 5, 6, 7, 8, 9]) c"

definition arrayIndex :: "string \<Rightarrow> nat option" where
  "arrayIndex s =
     (case those (map digitValue s) of
        None \<Rightarrow> None
      | Some [] \<Rightarrow> None
      | Some (d # ds) \<Rightarrow>
          if d = 0 \<and> ds \<noteq> [] then None
          else let v = foldl (\<lambda>a x. 10 * a + x) 0 (d # ds)
               in if v \<le> 4294967294 then Some v else None)"

text \<open>\<open>Object.entries\<close> of an object given by its own keys in creation order.\<close>

definition objectEntries :: "(string \<times> 'v) list \<Rightarrow> (string \<times> 'v) list" where
  "objectEntries m =
     sort_key (\<lambda>(k, v). case arrayIndex k of None \<Rightarrow> 0 | Some n \<Rightarrow> n)
       (filter (\<lambda>(k, v). arrayIndex k \<noteq> None) m)
     @ filter (\<lambda>(k, v). arrayIndex k = None) m"

definition skillAveragesOf :: "skillScores \<Rightarrow> skillAverage sorted" where
  "skillAveragesOf m =
     (let entries = map (\<lambda>(skill, scores).
                           \<lparr> sa_skill = skill,
                             sa_average = calculateAverageScore scores,
                             sa_count = length scores \<rparr>) (objectEntries m)
      in if consistentKeys (map sa_average entries)
         then Ordered (sortBy (\<lambda>a b. fsub (sa_average b) (sa_average a)) entries)
         else ImplementationDefined)"

definition topSkillsOf :: "skillAverage sorted \<Rightarrow> skillAverage sorted" where
  "topSkillsOf skillAverages =
     (case skillAverages of
        Ordered xs \<Rightarrow> Ordered (take 5 xs)
      | ImplementationDefined \<Rightarrow> ImplementationDefined)"

definition weakAreasOf :: "skillAverage sorted \<Rightarrow> skillAverage sorted" where
  "weakAreasOf skillAverages =
     (case skillAverages of
        Ordered xs \<Rightarrow> Ordered (take 5 (sortBy (\<lambda>a b. fsub (sa_average a) (sa_average b)) xs))
      | ImplementationDefined \<Rightarrow> ImplementationDefined)"

definition trendOf :: "num \<Rightarrow> string" where
  "trendOf improvement =
     (if fgt improvement (Fin 5) then ''improving''
      else if flt improvement (Fin (- 5)) then ''declining''
      else ''neutral'')"

definition calculateProgressAnalytics :: "int \<Rightarrow> interview list \<Rightarrow> failure + progress" where
  "calculateProgressAnalytics now interviews =
     (if length interviews = 0 then
        Inr \<lparr> p_totalInterviews = 0, p_averageScore = Fin 0, p_improvement = Fin 0,
              p_consistency = Fin 0, p_streak = 0, p_topSkills = Ordered [],
              p_weakAreas = Ordered [], p_trend = ''neutral'', p_recentScores = None,
              p_firstScore = None, p_latestScore = None \<rparr>
      else
        let sortedInterviews = sort_key createdAt interviews;
            scores = map (\<lambda>i. js_or (score i) (JNumber (Fin 0))) sortedInterviews;
            averageScore = calculateAverageScore scores;
            consistency = fsub (Fin 100) (calculateStandardDeviation scores);
            midPoint = length scores div 2;
            firstHalfAvg = calculateAverageScore (take midPoint scores);
            secondHalfAvg = calculateAverageScore (drop midPoint scores);
            improvement =
              fdiv (Math_round (fmul (fsub secondHalfAvg firstHalfAvg) (Fin 100))) (Fin 100);
            trend = trendOf improvement;
            streak = calculateStreak now sortedInterviews
        in case collectSkills [] sortedInterviews of
             Inl e \<Rightarrow> Inl e
           | Inr skillScores \<Rightarrow>
               let skillAverages = skillAveragesOf skillScores
               in Inr \<lparr> p_totalInterviews = length interviews,
                        p_averageScore = averageScore,
                        p_improvement = improvement,
                        p_consistency =
                          fdiv (Math_round (fmul consistency (Fin 100))) (Fin 100),
                        p_streak = streak,
                        p_topSkills = topSkillsOf skillAverages,
                        p_weakAreas = weakAreasOf skillAverages,
                        p_trend = trend,
                        p_recentScores = Some (drop (length scores - 10) scores),
                        p_firstScore =
                          Some (case scores of
                                  [] \<Rightarrow> JNumber (Fin 0)
                                | s # _ \<Rightarrow> js_or s (JNumber (Fin 0))),
                        p_latestScore =
                          Some (case rev scores of
                                  [] \<Rightarrow> JNumber (Fin 0)
                                | s # _ \<Rightarrow> js_or s (JNumber (Fin 0))) \<rparr>)"

subsection \<open>Leaderboard\<close>

text \<open>
  A user as the ranker reads it. \<open>u_oid\<close> is the field \<open>_id\<close> and \<open>u_id\<close> the
  field \<open>id\<close>; \<open>u_interviews\<close> and \<open>u_badges\<close> are \<open>None\<close> when the field is
  missing.
\<close>

record user =
  u_oid :: jsval
  u_id :: jsval
  u_name :: jsval
  u_avatar :: jsval
  u_interviews :: "interview list option"
  u_badges :: "string list option"

record rankedUser =
  r_userId :: jsval
  r_name :: jsval
  r_avatar :: jsval
  r_totalInterviews :: nat
  r_averageScore :: num
  r_consistency :: num
  r_compositeScore :: num
  r_badges :: "string list"

record leaderboardEntry =
  l_userId :: jsval
  l_name :: jsval
  l_avatar :: jsval
  l_totalInterviews :: nat
  l_averageScore :: num
  l_consistency :: num
  l_compositeScore :: num
  l_badges :: "string list"
  l_rank :: nat
  l_percentile :: num

text \<open>The callback of the first \<open>users.map\<close>.\<close>

definition rankUser :: "user \<Rightarrow> rankedUser" where
  "rankUser user =
     (let totalInterviews = (case u_interviews user of None \<Rightarrow> 0 | Some ivs \<Rightarrow> length ivs);
          userScores = (case u_interviews user of None \<Rightarrow> [] | Some ivs \<Rightarrow> map score ivs);
          averageScore = calculateAverageScore userScores;
          consistency = fsub (Fin 100) (calculateStandardDeviation userScores);
          activityScore = Math_min (fmul (ofNat totalInterviews) (Fin 2)) (Fin 100);
          compositeScore =
            Math_round (fadd (fadd (fmul averageScore (fl 0.6)) (fmul consistency (fl 0.25)))
                             (fmul activityScore (fl 0.15)))
      in \<lparr> r_userId = js_or (u_oid user) (u_id user),
           r_name = u_name user,
           r_avatar = u_avatar user,
           r_totalInterviews = totalInterviews,
           r_averageScore = averageScore,
           r_consistency = Math_round consistency,
           r_compositeScore = compositeScore,
           r_badges = (case u_badges user of None \<Rightarrow> [] | Some bs \<Rightarrow> bs) \<rparr>)"

text \<open>\<open>rankedUsers.sort((a, b) => b.compositeScore - a.compositeScore)\<close>\<close>

definition sortByComposite :: "rankedUser list \<Rightarrow> rankedUser list" where
  "sortByComposite rankedUsers =
     sortBy (\<lambda>a b. fsub (r_compositeScore b) (r_compositeScore a)) rankedUsers"

text \<open>The callback of the second \<open>map\<close>, which spreads the entry and adds two fields.\<close>

definition assignRank :: "rankedUser list \<Rightarrow> nat \<times> rankedUser \<Rightarrow> leaderboardEntry" where
  "assignRank rankedUsers p =
     (case p of (index, user) \<Rightarrow>
        \<lparr> l_userId = r_userId user,
          l_name = r_name user,
          l_avatar = r_avatar user,
          l_totalInterviews = r_totalInterviews user,
          l_averageScore = r_averageScore user,
          l_consistency = r_consistency user,
          l_compositeScore = r_compositeScore user,
          l_badges = r_badges user,
          l_rank = index + 1,
          l_percentile =
            calculatePercentile (r_compositeScore user)
              (map (\<lambda>u. JNumber (r_compositeScore u)) rankedUsers) \<rparr>)"

definition calculateLeaderboardRankings :: "user list \<Rightarrow> leaderboardEntry sorted" where
  "calculateLeaderboardRankings users =
     (if length users = 0 then Ordered []
      else let rankedUsers = map rankUser users
           in if consistentKeys (map r_compositeScore rankedUsers)
              then let sortedUsers = sortByComposite rankedUsers
                   in Ordered (map (assignRank sortedUsers) (enumerate 0 sortedUsers))
              else ImplementationDefined)"

subsection \<open>Skill gap analysis\<close>

text \<open>
  \<open>userSkills\<close> is given by its own keys, each with a level; \<open>targetSkills\<close> is
  given by the list that \<open>Object.entries\<close> yields for it, one pair for each own
  key. A level read from \<open>userSkills\<close> is a number, or the inherited member found
  under the name of the skill.
\<close>

datatype level = Level num | Member

text \<open>The number that a subtraction reads from a level.\<close>

fun levelNumber :: "level \<Rightarrow> num" where
  "levelNumber (Level n) = n"
| "levelNumber Member = NaN"

record gapEntry =
  g_skill :: string
  g_currentLevel :: level
  g_targetLevel :: num
  g_gap :: num
  g_priority :: string

record strengthEntry =
  s_skill :: string
  s_currentLevel :: level
  s_targetLevel :: num
  s_surplus :: num

text \<open>
  A recommendation names the skill; its \<open>suggestion\<close> text is built from the skill
  and the gap, which the model keeps as they are.
\<close>

record recommendation =
  rec_skill :: string
  rec_gap :: num

record gapAnalysis =
  ga_gaps :: "gapEntry list"
  ga_strengths :: "strengthEntry sorted"
  ga_readinessScore :: num
  ga_totalSkillsRequired :: nat
  ga_skillsMet :: nat
  ga_skillsToImprove :: nat
  ga_recommendations :: "recommendation list"

text \<open>\<open>userSkills[skill] || 0\<close>\<close>

definition userLevelOf :: "(string \<rightharpoonup> num) \<Rightarrow> string \<Rightarrow> level" where
  "userLevelOf userSkills skill =
     (case getProperty userSkills skill of
        Own l \<Rightarrow> if falsy (JNumber l) then Level (Fin 0) else Level l
      | Inherited \<Rightarrow> Member
      | Missing \<Rightarrow> Level (Fin 0))"

text \<open>One pass of the \<open>for ... of\<close> loop over the state (gaps, strengths).\<close>

definition classifySkill ::
  "(string \<rightharpoonup> num) \<Rightarrow> gapEntry list \<times> strengthEntry list \<Rightarrow> string \<times> num
     \<Rightarrow> gapEntry list \<times> strengthEntry list" where
  "classifySkill userSkills st e =
     (case (st, e) of ((gaps, strengths), (skill, targetLevel)) \<Rightarrow>
        let userLevel = userLevelOf userSkills skill;
            gap = fsub targetLevel (levelNumber userLevel)
        in if fgt gap (Fin 0)
           then (gaps @ [\<lparr> g_skill = skill, g_currentLevel = userLevel,
                           g_targetLevel = targetLevel, g_gap = gap,
                           g_priority = (if fgt gap (Fin 30) then ''high''
                                         else if fgt gap (Fin 15) then ''medium''
                                         else ''low'') \<rparr>],
                 strengths)
           else (gaps,
                 strengths @ [\<lparr> s_skill = skill, s_currentLevel = userLevel,
                                 s_targetLevel = targetLevel, s_surplus = Math_abs gap \<rparr>]))"

definition calculateSkillGap :: "(string \<rightharpoonup> num) \<Rightarrow> (string \<times> num) list \<Rightarrow> gapAnalysis" where
  "calculateSkillGap userSkills targetSkills =
     (case foldl (classifySkill userSkills) ([], []) targetSkills of (gaps0, strengths0) \<Rightarrow>
        let gaps = sortBy (\<lambda>a b. fsub (g_gap b) (g_gap a)) gaps0;
            strengths =
              (if consistentKeys (map s_surplus strengths0)
               then Ordered (sortBy (\<lambda>a b. fsub (s_surplus b) (s_surplus a)) strengths0)
               else ImplementationDefined);
            total = length targetSkills;
            high = length (filter (\<lambda>g. g_priority g = ''high'') gaps);
            readinessScore =
              Math_round (fmul (fdiv (fsub (ofNat total) (ofNat high)) (ofNat total)) (Fin 100))
        in \<lparr> ga_gaps = gaps,
             ga_strengths = strengths,
             ga_readinessScore = readinessScore,
             ga_totalSkillsRequired = total,
             ga_skillsMet = length strengths0,
             ga_skillsToImprove = length gaps,
             ga_recommendations =
               map (\<lambda>g. \<lparr> rec_skill = g_skill g, rec_gap = g_gap g \<rparr>) (take 3 gaps) \<rparr>)"

subsection \<open>Readiness score\<close>

record userData =
  ud_interviews :: "interview list option"
  ud_skills :: "string list option"

record componentScores =
  practiceFrequencyScore :: num
  averageScoreComponent :: num
  consistencyScore :: num
  skillCoverageScore :: num
  improvementScore :: num

record breakdown =
  b_practiceFrequency :: num
  b_averageScore :: num
  b_consistency :: num
  b_skillCoverage :: num
  b_recentImprovement :: num

record readiness =
  rs_readinessScore :: num
  rs_readinessLevel :: string
  rs_breakdown :: breakdown
  rs_recommendations :: "string list"

definition generateReadinessRecommendations :: "componentScores \<Rightarrow> string list" where
  "generateReadinessRecommendations cs =
     (let recommendations =
            (if flt (practiceFrequencyScore cs) (Fin 50)
             then [''Increase your practice frequency - aim for at least 3-4 mock interviews per week'']
             else [])
          @ (if flt (averageScoreComponent cs) (Fin 70)
             then [''Focus on improving your answer quality - review feedback from past interviews'']
             else [])
          @ (if flt (consistencyScore cs) (Fin 60)
             then [''Work on consistency - your scores vary significantly between interviews'']
             else [])
          @ (if flt (skillCoverageScore cs) (Fin 70)
             then [''Expand your skill set - practice interviews covering different technical areas'']
             else [])
          @ (if flt (improvementScore cs) (Fin 50)
             then [''Your recent performance has declined - review fundamentals and take breaks to avoid burnout'']
             else [])
      in if length recommendations = 0
         then [''Great job! Keep up the consistent practice and you'' @ [CHR 0x27]
                 @ ''ll be interview-ready soon'']
         else recommendations)"

text \<open>
  The five components, in the order the body computes them, from the progress
  analytics of the interviews. \<open>thirtyDaysAgo\<close> is the current time moved back by
  thirty days.
\<close>

definition readinessComponents :: "int \<Rightarrow> userData \<Rightarrow> progress \<Rightarrow> componentScores" where
  "readinessComponents now userData progress =
     (let interviews = orDefault (ud_interviews userData) [];
          skills = orDefault (ud_skills userData) [];
          recentInterviews =
            filter (\<lambda>i. let thirtyDaysAgo = now - 30 * msPerDay
                         in createdAt i \<ge> thirtyDaysAgo) interviews;
          requiredSkillCount = Fin 10
      in \<lparr> practiceFrequencyScore =
             Math_min (fmul (ofNat (length recentInterviews)) (Fin 10)) (Fin 100),
           averageScoreComponent = p_averageScore progress,
           consistencyScore = p_consistency progress,
           skillCoverageScore =
             Math_min (fmul (fdiv (ofNat (length skills)) requiredSkillCount) (Fin 100))
                      (Fin 100),
           improvementScore =
             Math_min (Math_max (fadd (Fin 50) (p_improvement progress)) (Fin 0))
                      (Fin 100) \<rparr>)"

definition readinessLevelOf :: "num \<Rightarrow> string" where
  "readinessLevelOf readinessScore =
     (if fge readinessScore (Fin 85) then ''Excellent''
      else if fge readinessScore (Fin 70) then ''Good''
      else if fge readinessScore (Fin 55) then ''Moderate''
      else if fge readinessScore (Fin 40) then ''Needs Work''
      else ''Not Ready'')"

definition calculateReadinessScore :: "int \<Rightarrow> userData \<Rightarrow> failure + readiness" where
  "calculateReadinessScore now userData =
     (case calculateProgressAnalytics now (orDefault (ud_interviews userData) []) of
        Inl e \<Rightarrow> Inl e
      | Inr progress \<Rightarrow>
          let c = readinessComponents now userData progress;
              readinessScore =
                Math_round
                  (fadd (fadd (fadd (fadd (fmul (practiceFrequencyScore c) (fl 0.2))
                                          (fmul (averageScoreComponent c) (fl 0.3)))
                                    (fmul (consistencyScore c) (fl 0.15)))
                              (fmul (skillCoverageScore c) (fl 0.2)))
                        (fmul (improvementScore c) (fl 0.15)))
          in Inr \<lparr> rs_readinessScore = readinessScore,
                   rs_readinessLevel = readinessLevelOf readinessScore,
                   rs_breakdown =
                     \<lparr> b_practiceFrequency = Math_round (practiceFrequencyScore c),
                       b_averageScore = Math_round (averageScoreComponent c),
                       b_consistency = Math_round (consistencyScore c),
                       b_skillCoverage = Math_round (skillCoverageScore c),
                       b_recentImprovement = Math_round (improvementScore c) \<rparr>,
                   rs_recommendations = generateReadinessRecommendations c \<rparr>)"

section \<open>Notions used in the proofs\<close>

text \<open>A finite double is a multiple of the smallest positive double.\<close>

definition isDouble :: "num \<Rightarrow> bool" where
  "isDouble n =
     (case n of Fin r \<Rightarrow> (\<exists>k::int. r = of_int k * 2 powi (- 1074)) | _ \<Rightarrow> True)"

section \<open>Inputs used in the examples\<close>

text \<open>Forty scores: 23 ones followed by 17 zeros, and 23 zeros followed by 17 ones.\<close>

definition onesThenZeros :: "jsval list" where
  "onesThenZeros = replicate 23 (JNumber (Fin 1)) @ replicate 17 (JNumber (Fin 0))"

definition zerosThenOnes :: "jsval list" where
  "zerosThenOnes = replicate 23 (JNumber (Fin 0)) @ replicate 17 (JNumber (Fin 1))"

text \<open>Two values whose squared deviations exceed the largest double.\<close>

definition hugeValues :: "jsval list" where
  "hugeValues = [JNumber (Fin (2 ^ 600)), JNumber (Fin (3 * 2 ^ 600))]"

text \<open>
  Interview data with 23 correct answers out of 40 and the difficulty written in
  upper case, and interview data with a negative number of questions.
\<close>

definition upperCaseHard :: interviewData where
  "upperCaseHard =
     \<lparr> totalQuestions = Some (Fin 40), correctAnswers = Some (Fin 23), duration = None,
       scores = Some [JNumber (Fin 70)], difficulty = Some ''HARD'' \<rparr>"

definition negativeTotal :: interviewData where
  "negativeTotal =
     \<lparr> totalQuestions = Some (Fin (- 2)), correctAnswers = Some (Fin 1), duration = None,
       scores = Some [JNumber (Fin 70)], difficulty = None \<rparr>"

text \<open>Interview data of an expert interview, four questions in two minutes.\<close>

definition expertInterview :: interviewData where
  "expertInterview =
     \<lparr> totalQuestions = Some (Fin 4), correctAnswers = Some (Fin 3), duration = Some (Fin 120),
       scores = Some [JNumber (Fin 50)], difficulty = Some ''Expert'' \<rparr>"

text \<open>
  Five interviews on five successive days, scored 0, 1, 0, 0, 2, and four
  interviews, given out of order, scored 60, 70, 90, 100 by date.
\<close>

definition fiveInterviews :: "interview list" where
  "fiveInterviews =
     [\<lparr> createdAt = 1 * msPerDay, score = JNumber (Fin 0), skills = None \<rparr>,
      \<lparr> createdAt = 2 * msPerDay, score = JNumber (Fin 1), skills = None \<rparr>,
      \<lparr> createdAt = 3 * msPerDay, score = JNumber (Fin 0), skills = None \<rparr>,
      \<lparr> createdAt = 4 * msPerDay, score = JNumber (Fin 0), skills = None \<rparr>,
      \<lparr> createdAt = 5 * msPerDay, score = JNumber (Fin 2), skills = None \<rparr>]"

definition fourInterviews :: "interview list" where
  "fourInterviews =
     [\<lparr> createdAt = 3 * msPerDay, score = JNumber (Fin 90), skills = Some [''react''] \<rparr>,
      \<lparr> createdAt = 1 * msPerDay, score = JNumber (Fin 60), skills = None \<rparr>,
      \<lparr> createdAt = 4 * msPerDay, score = JNumber (Fin 100), skills = Some [''react'', ''sql''] \<rparr>,
      \<lparr> createdAt = 2 * msPerDay, score = JNumber (Fin 70), skills = Some [''sql''] \<rparr>]"

text \<open>An interview that lists a skill named like a member of \<open>Object.prototype\<close>.\<close>

definition inheritedSkillInterviews :: "interview list" where
  "inheritedSkillInterviews =
     [\<lparr> createdAt = 1 * msPerDay, score = JNumber (Fin 80), skills = Some [''constructor''] \<rparr>]"

subsection \<open>The streak as the specification words it\<close>

text \<open>
  The calendar day of a time, and the number of consecutive calendar days,
  walking backward from the day of \<open>now\<close>, each of which holds an interview.
\<close>

definition dayNumber :: "int \<Rightarrow> int" where
  "dayNumber t = t div msPerDay"

definition consecutiveDays :: "int \<Rightarrow> interview list \<Rightarrow> nat" where
  "consecutiveDays now interviews =
     length (takeWhile
       (\<lambda>k. dayNumber now - int k \<in> set (map (\<lambda>i. dayNumber (createdAt i)) interviews))
       [0 ..< Suc (length interviews)])"

definition hourMs :: int where
  "hourMs = 1000 * 60 * 60"

text \<open>
  Two interviews on day 10 and one on day 9, seen at 18:00 on day 10; and one
  interview on each of the two days.
\<close>

definition sameDayInterviews :: "interview list" where
  "sameDayInterviews =
     [\<lparr> createdAt = 10 * msPerDay + 9 * hourMs, score = JNumber (Fin 80), skills = None \<rparr>,
      \<lparr> createdAt = 10 * msPerDay + 15 * hourMs, score = JNumber (Fin 80), skills = None \<rparr>,
      \<lparr> createdAt = 9 * msPerDay + 10 * hourMs, score = JNumber (Fin 80), skills = None \<rparr>]"

definition sameDayNow :: int where
  "sameDayNow = 10 * msPerDay + 18 * hourMs"

definition dailyInterviews :: "interview list" where
  "dailyInterviews =
     [\<lparr> createdAt = 10 * msPerDay + 9 * hourMs, score = JNumber (Fin 80), skills = None \<rparr>,
      \<lparr> createdAt = 9 * msPerDay + 10 * hourMs, score = JNumber (Fin 80), skills = None \<rparr>]"

subsection \<open>User data\<close>

text \<open>
  The current time, day 5, and four users: one with interviews scored 65 and 61
  on days 1 and 2 and five skills; one whose only interview, scored 70, is dated
  on day 6; one with interviews scored 0 and 300; and one with two interviews
  scored 80 and five skills.
\<close>

definition readinessNow :: int where
  "readinessNow = 5 * msPerDay"

definition twoScoresData :: userData where
  "twoScoresData =
     \<lparr> ud_interviews =
         Some [\<lparr> createdAt = 1 * msPerDay, score = JNumber (Fin 65), skills = None \<rparr>,
               \<lparr> createdAt = 2 * msPerDay, score = JNumber (Fin 61), skills = None \<rparr>],
       ud_skills = Some [''js'', ''css'', ''html'', ''sql'', ''git''] \<rparr>"

definition futureDatedData :: userData where
  "futureDatedData =
     \<lparr> ud_interviews =
         Some [\<lparr> createdAt = 6 * msPerDay, score = JNumber (Fin 70), skills = None \<rparr>],
       ud_skills = None \<rparr>"

definition outOfRangeData :: userData where
  "outOfRangeData =
     \<lparr> ud_interviews =
         Some [\<lparr> createdAt = 1 * msPerDay, score = JNumber (Fin 0), skills = None \<rparr>,
               \<lparr> createdAt = 2 * msPerDay, score = JNumber (Fin 300), skills = None \<rparr>],
       ud_skills = None \<rparr>"

definition steadyData :: userData where
  "steadyData =
     \<lparr> ud_interviews =
         Some [\<lparr> createdAt = 1 * msPerDay, score = JNumber (Fin 80), skills = Some [''js''] \<rparr>,
               \<lparr> createdAt = 2 * msPerDay, score = JNumber (Fin 80), skills = Some [''css''] \<rparr>],
       ud_skills = Some [''js'', ''css'', ''html'', ''sql'', ''git''] \<rparr>"

section \<open>Properties\<close>

subsection \<open>Rounding to a double\<close>

lemma rne_unique:
  assumes "\<bar>y - of_int m\<bar> < 1 / 2"
  shows "rne y = m"
proof -
  have "\<lfloor>y\<rfloor> = m \<or> \<lfloor>y\<rfloor> = m - 1"
    using assms by linarith
  then show ?thesis
  proof
    assume f: "\<lfloor>y\<rfloor> = m"
    then have "y - of_int m < 1 / 2" using assms by linarith
    with f show ?thesis by (simp add: rne_def Let_def)
  next
    assume f: "\<lfloor>y\<rfloor> = m - 1"
    have "1 / 2 < y - of_int (m - 1)" using assms by (simp add: abs_if split: if_splits)
    with f show ?thesis by (simp add: rne_def Let_def)
  qed
qed

lemma rne_mono_one:
  assumes "1 \<le> y"
  shows "1 \<le> rne y"
proof -
  have "1 \<le> \<lfloor>y\<rfloor>" using assms by linarith
  then show ?thesis by (simp add: rne_def Let_def)
qed

lemma rne_nonneg:
  assumes "0 \<le> y"
  shows "0 \<le> rne y"
proof -
  have "0 \<le> \<lfloor>y\<rfloor>" using assms by linarith
  then show ?thesis by (simp add: rne_def Let_def)
qed

lemma rne_nonpos:
  assumes "y \<le> 0"
  shows "rne y \<le> 0"
proof (cases "y = 0")
  case True
  then show ?thesis by (simp add: rne_def)
next
  case False
  with assms have "\<lfloor>y\<rfloor> \<le> - 1" by linarith
  moreover have "y - of_int \<lfloor>y\<rfloor> < 1" by linarith
  ultimately show ?thesis by (simp add: rne_def Let_def)
qed

lemma expo_eq:
  assumes "2 powi e \<le> \<bar>x\<bar>" and "\<bar>x\<bar> < 2 powi (e + 1)" and "- 1022 \<le> e"
  shows "expo x = e"
proof -
  have pos: "0 < \<bar>x\<bar>"
    using assms(1) by (smt (verit) zero_less_power_int)
  have "\<lfloor>log 2 \<bar>x\<bar>\<rfloor> = e"
  proof (rule floor_unique)
    have "2 powr (real_of_int e) \<le> \<bar>x\<bar>"
      using assms(1) by (simp add: powr_real_of_int')
    then show "real_of_int e \<le> log 2 \<bar>x\<bar>"
      using pos by (simp add: le_log_iff)
    have "\<bar>x\<bar> < 2 powr (real_of_int (e + 1))"
      using assms(2) by (simp add: powr_real_of_int' del: of_int_add)
    then show "log 2 \<bar>x\<bar> < real_of_int e + 1"
      using pos by (simp add: log_less_iff)
  qed
  then show ?thesis using assms(3) by (simp add: expo_def)
qed

lemma pow_split: "(2::real) powi (e + 1) = 2 powi 53 * 2 powi (e - 52)"
proof -
  have "e + 1 = 53 + (e - 52)" by simp
  then have "(2::real) powi (e + 1) = 2 powi (53 + (e - 52))"
    by (simp only:)
  also have "\<dots> = 2 powi 53 * 2 powi (e - 52)"
    by (rule power_int_add) simp
  finally show ?thesis .
qed

text \<open>
  A certificate for one rounding: the binade of \<open>x\<close> and the integer significand
  nearest to it.
\<close>

lemma fl_cert:
  assumes "2 powi e \<le> \<bar>x\<bar>" and "\<bar>x\<bar> < 2 powi (e + 1)" and "- 1022 \<le> e" and "e \<le> 1022"
    and "\<bar>x / 2 powi (e - 52) - of_int m\<bar> < 1 / 2"
  shows "fl x = Fin (of_int m * 2 powi (e - 52))"
proof -
  let ?q = "(2::real) powi (e - 52)"
  have q: "0 < ?q" by simp
  have x0: "x \<noteq> 0"
    using assms(1) by (smt (verit) zero_less_power_int)
  have ex: "expo x = e"
    using assms(1-3) by (rule expo_eq)
  have m: "rne (x / ?q) = m"
    using assms(5) by (rule rne_unique)
  have "\<bar>x\<bar> / ?q < 2 powi 53"
  proof -
    have "(2::real) powi (e + 1) = 2 powi 53 * ?q"
      by (rule pow_split)
    with assms(2) q show ?thesis
      by (simp add: divide_less_eq)
  qed
  moreover have "\<bar>x / ?q\<bar> = \<bar>x\<bar> / ?q"
    using q by (simp only: abs_divide abs_of_pos)
  ultimately have "\<bar>x / ?q\<bar> < 2 powi 53"
    by (simp only:)
  with assms(5) have "\<bar>real_of_int m\<bar> < 2 powi 53 + 1 / 2"
    by linarith
  then have "\<bar>m\<bar> \<le> 2 ^ 53"
    by (simp add: abs_if split: if_splits)
  then have "\<bar>real_of_int m\<bar> \<le> 2 powi 53"
    by (simp add: abs_if split: if_splits)
  then have "\<bar>real_of_int m * ?q\<bar> \<le> 2 powi 53 * ?q"
    using q by (simp add: abs_mult)
  also have "\<dots> = 2 powi (e + 1)"
    by (rule pow_split [symmetric])
  also have "\<dots> \<le> 2 powi 1023"
    using assms(4) by (intro power_int_increasing) simp_all
  also have "\<dots> < (2::real) powi 1024"
    by (intro power_int_strict_increasing) simp_all
  finally have "\<not> 2 powi 1024 \<le> \<bar>real_of_int m * ?q\<bar>"
    by simp
  then show ?thesis
    using x0 by (simp add: fl_def Let_def ex m)
qed

lemma rne_tie:
  assumes "y = of_int f + 1 / 2"
  shows "rne y = (if even f then f else f + 1)"
proof -
  have "\<lfloor>y\<rfloor> = f"
    using assms by linarith
  moreover have "y - of_int f = 1 / 2"
    using assms by simp
  ultimately show ?thesis
    by (simp add: rne_def Let_def)
qed

text \<open>
  A certificate for a rounding that falls half way between two significands:
  the even one is taken.
\<close>

lemma fl_cert_tie:
  assumes "2 powi e \<le> \<bar>x\<bar>" and "\<bar>x\<bar> < 2 powi (e + 1)" and "- 1022 \<le> e" and "e \<le> 1022"
    and "x / 2 powi (e - 52) = of_int f + 1 / 2"
    and "m = (if even f then f else f + 1)"
  shows "fl x = Fin (of_int m * 2 powi (e - 52))"
proof -
  let ?q = "(2::real) powi (e - 52)"
  have q: "0 < ?q" by simp
  have x0: "x \<noteq> 0"
    using assms(1) by (smt (verit) zero_less_power_int)
  have ex: "expo x = e"
    using assms(1-3) by (rule expo_eq)
  have m: "rne (x / ?q) = m"
    using rne_tie [OF assms(5)] assms(6) by simp
  have near: "\<bar>x / ?q - of_int m\<bar> \<le> 1 / 2"
    using assms(5,6) by (simp split: if_splits)
  have "\<bar>x\<bar> / ?q < 2 powi 53"
  proof -
    have "(2::real) powi (e + 1) = 2 powi 53 * ?q"
      by (rule pow_split)
    with assms(2) q show ?thesis
      by (simp add: divide_less_eq)
  qed
  moreover have "\<bar>x / ?q\<bar> = \<bar>x\<bar> / ?q"
    using q by (simp only: abs_divide abs_of_pos)
  ultimately have "\<bar>x / ?q\<bar> < 2 powi 53"
    by (simp only:)
  with near have "\<bar>real_of_int m\<bar> < 2 powi 53 + 1 / 2"
    by linarith
  then have "\<bar>m\<bar> \<le> 2 ^ 53"
    by (simp add: abs_if split: if_splits)
  then have "\<bar>real_of_int m\<bar> \<le> 2 powi 53"
    by (simp add: abs_if split: if_splits)
  then have "\<bar>real_of_int m * ?q\<bar> \<le> 2 powi 53 * ?q"
    using q by (simp add: abs_mult)
  also have "\<dots> = 2 powi (e + 1)"
    by (rule pow_split [symmetric])
  also have "\<dots> \<le> 2 powi 1023"
    using assms(4) by (intro power_int_increasing) simp_all
  also have "\<dots> < (2::real) powi 1024"
    by (intro power_int_strict_increasing) simp_all
  finally have "\<not> 2 powi 1024 \<le> \<bar>real_of_int m * ?q\<bar>"
    by simp
  then show ?thesis
    using x0 by (simp add: fl_def Let_def ex m)
qed

lemma fl_zero [simp]: "fl 0 = Fin 0"
  by (simp add: fl_def)

lemma expo_ge: "- 1022 \<le> expo x"
  by (simp add: expo_def)

lemma expo_le_abs:
  assumes "x \<noteq> 0" and "- 1022 < expo x"
  shows "2 powi (expo x) \<le> \<bar>x\<bar>"
proof -
  have e: "expo x = \<lfloor>log 2 \<bar>x\<bar>\<rfloor>"
    using assms(2) by (simp add: expo_def max_def split: if_splits)
  have pos: "0 < \<bar>x\<bar>"
    using assms(1) by simp
  have "real_of_int \<lfloor>log 2 \<bar>x\<bar>\<rfloor> \<le> log 2 \<bar>x\<bar>"
    by simp
  then have "2 powr real_of_int \<lfloor>log 2 \<bar>x\<bar>\<rfloor> \<le> \<bar>x\<bar>"
    using pos le_log_iff [of 2 "\<bar>x\<bar>" "real_of_int \<lfloor>log 2 \<bar>x\<bar>\<rfloor>"] by simp
  then show ?thesis
    by (simp add: e powr_real_of_int')
qed

text \<open>An exact result of at least \<open>2^1024\<close> overflows.\<close>

lemma fl_overflow:
  assumes "2 powi 1024 \<le> x"
  shows "fl x = PosInf"
proof -
  let ?q = "(2::real) powi (expo x - 52)"
  have q: "0 < ?q" by simp
  have x0: "0 < x"
    using assms by (smt (verit) zero_less_power_int)
  have "real_of_int 1024 \<le> log 2 \<bar>x\<bar>"
  proof -
    have "(2::real) powr real_of_int 1024 = 2 powi 1024"
      by (rule powr_real_of_int') simp_all
    with assms x0 have "2 powr real_of_int 1024 \<le> \<bar>x\<bar>"
      by simp
    then show ?thesis
      using x0 le_log_iff [of 2 "\<bar>x\<bar>" "real_of_int 1024"] by simp
  qed
  then have "1024 \<le> \<lfloor>log 2 \<bar>x\<bar>\<rfloor>"
    by (simp add: le_floor_iff)
  then have e: "1024 \<le> expo x"
    by (simp add: expo_def)
  then have le: "2 powi (expo x) \<le> \<bar>x\<bar>"
    using x0 by (intro expo_le_abs) simp_all
  have "2 powi (expo x) = 2 powi (52 + (expo x - 52))"
    by simp
  also have "\<dots> = (2::real) powi 52 * ?q"
    by (rule power_int_add) simp
  finally have split: "2 powi (expo x) = (2::real) powi 52 * ?q" .
  have "(2::real) powi 52 \<le> x / ?q"
    using le x0 q by (simp add: split le_divide_eq)
  then have "(2::real) ^ 52 \<le> x / ?q"
    by simp
  then have "2 ^ 52 \<le> \<lfloor>x / ?q\<rfloor>"
    by (simp add: le_floor_iff)
  then have "2 ^ 52 \<le> rne (x / ?q)"
    by (simp add: rne_def Let_def)
  then have "(2::real) ^ 52 \<le> real_of_int (rne (x / ?q))"
    by (metis of_int_le_iff of_int_numeral of_int_power)
  then have "(2::real) powi 52 * ?q \<le> real_of_int (rne (x / ?q)) * ?q"
    using q by simp
  then have "2 powi (expo x) \<le> real_of_int (rne (x / ?q)) * ?q"
    by (simp only: split)
  moreover have "(2::real) powi 1024 \<le> 2 powi (expo x)"
    using e by (intro power_int_increasing) simp_all
  ultimately have "2 powi 1024 \<le> \<bar>real_of_int (rne (x / ?q)) * ?q\<bar>"
    by linarith
  then show ?thesis
    using x0 by (simp add: fl_def Let_def)
qed

subsection \<open>Doubles and the sign of a difference\<close>

lemma isDouble_fl: "isDouble (fl x)"
proof (cases "x = 0")
  case True
  have "(0::real) = of_int 0 * 2 powi (- 1074)" by simp
  then show ?thesis unfolding True isDouble_def fl_zero by (simp only: num.case) blast
next
  case False
  let ?m = "rne (x / 2 powi (expo x - 52))"
  have "expo x - 52 = (expo x + 1022) + (- 1074)" by simp
  then have "(2::real) powi (expo x - 52) = 2 powi ((expo x + 1022) + (- 1074))"
    by (simp only:)
  also have "\<dots> = 2 powi (expo x + 1022) * 2 powi (- 1074)"
    by (rule power_int_add) simp
  also have "(2::real) powi (expo x + 1022) = of_int (2 ^ nat (expo x + 1022))"
    using expo_ge [of x] by (simp add: power_int_def)
  finally have "real_of_int ?m * 2 powi (expo x - 52)
      = of_int (?m * 2 ^ nat (expo x + 1022)) * 2 powi (- 1074)"
    by simp
  then have "\<exists>k::int. real_of_int ?m * 2 powi (expo x - 52) = of_int k * 2 powi (- 1074)"
    by blast
  then show ?thesis
    using False by (simp add: isDouble_def fl_def Let_def)
qed

lemma isDouble_fadd: "isDouble (fadd a b)"
  by (cases a; cases b) (simp_all add: isDouble_fl, simp_all add: isDouble_def)

lemma isDouble_fsub: "isDouble (fsub a b)"
  by (simp add: fsub_def isDouble_fadd)

lemma isDouble_of_int: "isDouble (Fin (of_int j))"
proof -
  have "real_of_int j = of_int (j * 2 ^ 1074) * 2 powi (- 1074)"
    by (simp add: power_int_minus)
  then show ?thesis
    unfolding isDouble_def by (simp only: num.case) blast
qed

lemma isDouble_Math_round: "isDouble (Math_round n)"
  by (cases n) (simp_all add: isDouble_of_int, simp_all add: isDouble_def)

lemma fl_positive:
  assumes "2 powi (- 1074) \<le> x"
  shows "fgt (fl x) (Fin 0)"
proof -
  let ?q = "(2::real) powi (expo x - 52)"
  have q: "0 < ?q" by simp
  have x0: "0 < x"
    using assms by (smt (verit) zero_less_power_int)
  have "?q \<le> x"
  proof (cases "- 1022 < expo x")
    case True
    then have "2 powi (expo x) \<le> \<bar>x\<bar>"
      using x0 by (intro expo_le_abs) simp_all
    moreover have "?q \<le> 2 powi (expo x)"
      by (intro power_int_increasing) simp_all
    ultimately show ?thesis using x0 by simp
  next
    case False
    with expo_ge [of x] have "expo x = - 1022" by simp
    with assms show ?thesis by simp
  qed
  then have "1 \<le> x / ?q"
    using q by (simp add: le_divide_eq)
  then have "1 \<le> rne (x / ?q)"
    by (rule rne_mono_one)
  then have "0 < real_of_int (rne (x / ?q)) * ?q"
    using q by simp
  then show ?thesis
    using x0 by (simp add: fl_def Let_def fgt_def)
qed

lemma fl_not_positive:
  assumes "x \<le> 0"
  shows "\<not> fgt (fl x) (Fin 0)"
proof (cases "x = 0")
  case True
  then show ?thesis by (simp add: fgt_def)
next
  case False
  let ?q = "(2::real) powi (expo x - 52)"
  have q: "0 < ?q" by simp
  have "x / ?q \<le> 0"
    using assms q by (simp add: divide_le_0_iff)
  then have "rne (x / ?q) \<le> 0"
    by (rule rne_nonpos)
  then have "real_of_int (rne (x / ?q)) * ?q \<le> 0"
    using q by (simp add: mult_le_0_iff)
  then show ?thesis
    using False assms by (simp add: fl_def Let_def fgt_def)
qed

lemma double_gap:
  assumes "isDouble (Fin x)" and "isDouble (Fin y)" and "x < y"
  shows "2 powi (- 1074) \<le> y - x"
proof -
  let ?g = "(2::real) powi (- 1074)"
  have g: "0 < ?g" by simp
  from assms(1,2) obtain j k :: int where x: "x = of_int j * ?g" and y: "y = of_int k * ?g"
    by (auto simp: isDouble_def)
  from assms(3) g have "real_of_int j < real_of_int k"
    unfolding x y by (simp only: mult_less_cancel_right_pos)
  then have "j + 1 \<le> k" by simp
  then have "real_of_int j + 1 \<le> real_of_int k" by linarith
  then have "(real_of_int j + 1) * ?g \<le> real_of_int k * ?g"
    using g by (simp only: mult_le_cancel_right_pos)
  then show ?thesis
    unfolding x y by (simp add: algebra_simps)
qed

text \<open>
  The comparator \<open>(a, b) => key(b) - key(a)\<close> is positive exactly when the key
  of \<open>a\<close> is below the key of \<open>b\<close>.
\<close>

lemma difference_sign:
  assumes "isDouble a" and "isDouble b" and "a \<noteq> NaN" and "b \<noteq> NaN"
  shows "fgt (fsub b a) (Fin 0) \<longleftrightarrow> flt a b"
proof (cases a)
  case (Fin x)
  note a = this
  show ?thesis
  proof (cases b)
    case (Fin y)
    show ?thesis
    proof (cases "x < y")
      case True
      from double_gap [OF assms(1,2) [unfolded a Fin] True]
      have "fgt (fl (y - x)) (Fin 0)" by (rule fl_positive)
      with True show ?thesis by (simp add: a Fin fsub_def)
    next
      case False
      then have "\<not> fgt (fl (y - x)) (Fin 0)" by (intro fl_not_positive) simp
      with False show ?thesis by (simp add: a Fin fsub_def)
    qed
  qed (use assms a in \<open>simp_all add: fsub_def fgt_def\<close>)
qed (use assms in \<open>cases b; simp add: fsub_def fgt_def\<close>)+

lemma fle_trans: "fle a b \<Longrightarrow> fle b c \<Longrightarrow> fle a c"
  by (cases a; cases b; cases c) simp_all

lemma fle_antisym: "fle a b \<Longrightarrow> fle b a \<Longrightarrow> a = b"
  by (cases a; cases b) simp_all

lemma not_flt_fle: "a \<noteq> NaN \<Longrightarrow> b \<noteq> NaN \<Longrightarrow> \<not> flt a b \<Longrightarrow> fle b a"
  by (cases a; cases b) simp_all

lemma flt_fle: "flt a b \<Longrightarrow> fle a b"
  by (cases a; cases b) simp_all

subsection \<open>Sorting\<close>

lemma mset_insertBy: "mset (insertBy cmp x ys) = add_mset x (mset ys)"
  by (induction ys) simp_all

lemma mset_sortBy: "mset (sortBy cmp xs) = mset xs"
  by (induction xs) (simp_all add: sortBy_def mset_insertBy)

lemma set_sortBy: "set (sortBy cmp xs) = set xs"
  by (metis mset_sortBy set_mset_mset)

lemma length_sortBy [simp]: "length (sortBy cmp xs) = length xs"
  by (metis mset_sortBy size_mset)

lemma set_insertBy: "set (insertBy cmp x ys) = insert x (set ys)"
  by (metis mset_insertBy set_mset_add_mset_insert set_mset_mset)

lemma length_filter_sortBy: "length (filter P (sortBy cmp ys)) = length (filter P ys)"
proof -
  have "mset (filter P (sortBy cmp ys)) = mset (filter P ys)"
    by (simp add: mset_sortBy)
  then show ?thesis by (rule mset_eq_length)
qed

text \<open>
  Sorting by a key in descending order, when every key is a double other than
  NaN: the result is in non-increasing order of the key.
\<close>

lemma sorted_insertBy:
  assumes "\<forall>z\<in>set (x # ys). isDouble (key z) \<and> key z \<noteq> NaN"
    and "sorted_wrt (\<lambda>a b. fge (key a) (key b)) ys"
  shows "sorted_wrt (\<lambda>a b. fge (key a) (key b))
           (insertBy (\<lambda>a b. fsub (key b) (key a)) x ys)"
  using assms
proof (induction ys)
  case Nil
  show ?case by simp
next
  case (Cons y ys)
  have good: "isDouble (key x)" "key x \<noteq> NaN" "isDouble (key y)" "key y \<noteq> NaN"
    using Cons.prems(1) by simp_all
  have sign: "fgt (fsub (key y) (key x)) (Fin 0) \<longleftrightarrow> flt (key x) (key y)"
    using good by (intro difference_sign)
  show ?case
  proof (cases "flt (key x) (key y)")
    case True
    have rest: "sorted_wrt (\<lambda>a b. fge (key a) (key b))
        (insertBy (\<lambda>a b. fsub (key b) (key a)) x ys)"
      using Cons.prems by (intro Cons.IH) simp_all
    have "fge (key y) (key z)" if "z \<in> set (insertBy (\<lambda>a b. fsub (key b) (key a)) x ys)" for z
    proof -
      from that have "z = x \<or> z \<in> set ys" by (simp add: set_insertBy)
      then show ?thesis
      proof
        assume "z = x"
        with True show ?thesis by (simp add: fge_def flt_fle)
      next
        assume "z \<in> set ys"
        with Cons.prems(2) show ?thesis by simp
      qed
    qed
    with rest True sign show ?thesis by simp
  next
    case False
    then have xy: "fge (key x) (key y)"
      using good by (simp add: fge_def not_flt_fle)
    have "fge (key x) (key z)" if "z \<in> set ys" for z
    proof -
      from that Cons.prems(2) have "fge (key y) (key z)" by simp
      with xy show ?thesis unfolding fge_def by (meson fle_trans)
    qed
    with xy Cons.prems(2) False sign show ?thesis by simp
  qed
qed

lemma sorted_sortBy:
  assumes "\<forall>z\<in>set xs. isDouble (key z) \<and> key z \<noteq> NaN"
  shows "sorted_wrt (\<lambda>a b. fge (key a) (key b)) (sortBy (\<lambda>a b. fsub (key b) (key a)) xs)"
  using assms
proof (induction xs)
  case Nil
  show ?case by (simp add: sortBy_def)
next
  case (Cons x xs)
  have "sorted_wrt (\<lambda>a b. fge (key a) (key b)) (sortBy (\<lambda>a b. fsub (key b) (key a)) xs)"
    using Cons.prems by (intro Cons.IH) simp
  moreover have "\<forall>z\<in>set (x # sortBy (\<lambda>a b. fsub (key b) (key a)) xs).
      isDouble (key z) \<and> key z \<noteq> NaN"
    using Cons.prems by (simp add: set_sortBy)
  ultimately have "sorted_wrt (\<lambda>a b. fge (key a) (key b))
      (insertBy (\<lambda>a b. fsub (key b) (key a)) x (sortBy (\<lambda>a b. fsub (key b) (key a)) xs))"
    by (intro sorted_insertBy)
  then show ?case by (simp add: sortBy_def)
qed

subsection \<open>Integers up to \<open>2^53\<close> are doubles\<close>

lemma fl_exact:
  assumes "x \<noteq> 0" and "x / 2 powi (expo x - 52) = of_int m" and "\<bar>x\<bar> < 2 powi 1024"
  shows "fl x = Fin x"
proof -
  let ?q = "(2::real) powi (expo x - 52)"
  have q: "?q \<noteq> 0" by simp
  have "rne (x / ?q) = m"
    by (simp only: assms(2)) (rule rne_unique, simp)
  moreover have "of_int m * ?q = x"
    using assms(2) q by (metis nonzero_divide_eq_eq)
  ultimately show ?thesis
    using assms(1,3) by (simp add: fl_def Let_def)
qed

lemma fl_of_int:
  assumes "\<bar>k\<bar> \<le> 2 ^ 53"
  shows "fl (of_int k) = Fin (of_int k)"
proof (cases "k = 0")
  case True
  then show ?thesis by simp
next
  case False
  let ?x = "real_of_int k"
  have x1: "1 \<le> \<bar>?x\<bar>"
    using False by (simp add: abs_if)
  have x53: "\<bar>?x\<bar> \<le> 2 ^ 53"
  proof -
    have "real_of_int \<bar>k\<bar> \<le> real_of_int (2 ^ 53)"
      using assms by (simp only: of_int_le_iff)
    then show ?thesis by simp
  qed
  have "0 \<le> log 2 \<bar>?x\<bar>"
    using x1 by simp
  then have f0: "0 \<le> \<lfloor>log 2 \<bar>?x\<bar>\<rfloor>"
    by simp
  then have ex: "expo ?x = \<lfloor>log 2 \<bar>?x\<bar>\<rfloor>"
    by (simp add: expo_def)
  have "log 2 \<bar>?x\<bar> \<le> 53"
  proof -
    have l53: "log 2 ((2::real) ^ 53) = real 53"
      by (rule log_pow_cancel) simp_all
    have "log 2 \<bar>?x\<bar> \<le> log 2 (2 ^ 53)"
      using x1 x53 by (subst log_le_cancel_iff) simp_all
    then have "log 2 \<bar>?x\<bar> \<le> real 53"
      by (simp only: l53)
    then show ?thesis by simp
  qed
  then have f53: "\<lfloor>log 2 \<bar>?x\<bar>\<rfloor> \<le> 53"
    by (simp add: floor_le_iff)
  have small: "\<bar>?x\<bar> < 2 powi 1024"
  proof -
    have "(2::real) ^ 53 < 2 ^ 1024" by simp
    with x53 show ?thesis by simp
  qed
  have "\<exists>m::int. ?x / 2 powi (expo ?x - 52) = of_int m"
  proof (cases "expo ?x \<le> 52")
    case True
    have "?x / 2 powi (expo ?x - 52) = ?x * 2 powi (52 - expo ?x)"
      by (simp add: power_int_diff field_simps)
    also have "(2::real) powi (52 - expo ?x) = 2 ^ nat (52 - expo ?x)"
      using True by (simp add: power_int_def)
    finally have "?x / 2 powi (expo ?x - 52) = of_int (k * 2 ^ nat (52 - expo ?x))"
      by simp
    then show ?thesis by blast
  next
    case False
    with ex f53 have e: "expo ?x = 53" by linarith
    then have "2 powi 53 \<le> \<bar>?x\<bar>"
      using expo_le_abs [of ?x] x1 by simp
    with x53 have "\<bar>?x\<bar> = 2 ^ 53" by simp
    then have "\<bar>k\<bar> = 2 ^ 53"
      by (metis of_int_abs of_int_eq_iff of_int_numeral of_int_power)
    then have "even \<bar>k\<bar>" by simp
    then have "even k" by simp
    then obtain j where j: "k = 2 * j" by (rule evenE)
    have q2: "(2::real) powi (expo ?x - 52) = 2"
      by (simp add: e)
    have "?x / 2 powi (expo ?x - 52) = of_int j"
      unfolding q2 by (simp add: j)
    then show ?thesis by blast
  qed
  then obtain m :: int where "?x / 2 powi (expo ?x - 52) = of_int m"
    by blast
  with False small show ?thesis
    by (intro fl_exact) simp_all
qed

lemma fl_numeral [simp]:
  "numeral n \<le> (9007199254740992::int) \<Longrightarrow> fl (numeral n) = Fin (numeral n)"
  using fl_of_int [of "numeral n"] by simp

lemma fl_neg_numeral [simp]:
  "numeral n \<le> (9007199254740992::int) \<Longrightarrow> fl (- numeral n) = Fin (- numeral n)"
  using fl_of_int [of "- numeral n"] by simp

lemma fl_one [simp]: "fl 1 = Fin 1"
  using fl_of_int [of 1] by simp

lemma ofNat_exact:
  assumes "n \<le> 2 ^ 53"
  shows "ofNat n = Fin (real n)"
proof -
  have "int n \<le> int (2 ^ 53)"
    using assms by (simp only: of_nat_le_iff)
  then have "\<bar>int n\<bar> \<le> 2 ^ 53"
    by simp
  from fl_of_int [OF this] show ?thesis
    by (simp add: ofNat_def)
qed

lemma ofNat_numeral [simp]:
  "numeral n \<le> (9007199254740992::int) \<Longrightarrow> ofNat (numeral n) = Fin (numeral n)"
  by (simp add: ofNat_def)

lemma ofNat_zero [simp]: "ofNat 0 = Fin 0"
  by (simp add: ofNat_def)

lemma ofNat_one [simp]: "ofNat (Suc 0) = Fin 1"
  by (simp add: ofNat_def)

lemma fgt_Fin [simp]: "fgt (Fin a) (Fin b) = (b < a)"
  by (simp add: fgt_def)

lemma fge_Fin [simp]: "fge (Fin a) (Fin b) = (b \<le> a)"
  by (simp add: fge_def)

subsection \<open>Roundings used in the examples\<close>

lemma fl_step_1: "fl (23 / 40) = Fin (2589569785738035 / 4503599627370496)"
  using fl_cert [of "- 1" "23 / 40" "5179139571476070"] by simp

lemma fl_step_2: "fl (64739244643450875 / 1125899906842624) = Fin (8092405580431359 / 140737488355328)"
  using fl_cert [of "5" "64739244643450875 / 1125899906842624" "8092405580431359"] by simp

lemma fl_step_3: "fl (57 / 100) = Fin (5134103575202365 / 9007199254740992)"
  using fl_cert [of "- 1" "57 / 100" "5134103575202365"] by simp

lemma fl_step_4: "fl (29 / 50) = Fin (5224175567749775 / 9007199254740992)"
  using fl_cert [of "- 1" "29 / 50" "5224175567749775"] by simp

subsection \<open>Auxiliary facts about the metrics library\<close>

lemma validNumbers_Nil [simp]: "validNumbers [] = []"
  by (simp add: validNumbers_def)

lemma validNumbers_Cons:
  "validNumbers (v # vs) =
     (case v of JNumber n \<Rightarrow> if n = NaN then validNumbers vs else n # validNumbers vs
      | _ \<Rightarrow> validNumbers vs)"
  by (cases v) (simp_all add: validNumbers_def)

lemma validNumbers_append: "validNumbers (xs @ ys) = validNumbers xs @ validNumbers ys"
  by (simp add: validNumbers_def)

lemma validNumbers_replicate:
  "n \<noteq> NaN \<Longrightarrow> validNumbers (replicate k (JNumber n)) = replicate k n"
  by (simp add: validNumbers_def)

lemma set_validNumbers: "set (validNumbers xs) = {n. n \<noteq> NaN \<and> JNumber n \<in> set xs}"
  by (induction xs) (auto simp: validNumbers_Cons split: jsval.splits)

lemma calculateAverageScore_eq:
  "calculateAverageScore xs =
     (if validNumbers xs = [] then Fin 0
      else fdiv (Math_round (fmul (fdiv (reduce_sum (validNumbers xs))
                                        (ofNat (length (validNumbers xs)))) (Fin 100)))
                (Fin 100))"
  by (cases xs) (simp_all add: calculateAverageScore_def Let_def)

lemma reduce_sum_ones:
  assumes "k + n \<le> 2 ^ 53"
  shows "foldl (\<lambda>acc x. fadd acc x) (Fin (real k)) (replicate n (Fin 1)) = Fin (real (k + n))"
  using assms
proof (induction n arbitrary: k)
  case 0
  show ?case by simp
next
  case (Suc n)
  have "fadd (Fin (real k)) (Fin 1) = ofNat (Suc k)"
    by (simp add: ofNat_def add.commute)
  also have "\<dots> = Fin (real (Suc k))"
    using Suc.prems by (intro ofNat_exact) simp
  finally have "fadd (Fin (real k)) (Fin 1) = Fin (real (Suc k))" .
  moreover have "Suc k + n \<le> 2 ^ 53"
    using Suc.prems by simp
  ultimately show ?case
    using Suc.IH [of "Suc k"] by simp
qed

lemma reduce_sum_zeros:
  assumes "fl x = Fin x"
  shows "foldl (\<lambda>acc x. fadd acc x) (Fin x) (replicate n (Fin 0)) = Fin x"
  using assms by (induction n) simp_all

lemma avg_onesThenZeros:
  "calculateAverageScore onesThenZeros = Fin (5134103575202365 / 9007199254740992)"
proof -
  have v: "validNumbers onesThenZeros = replicate 23 (Fin 1) @ replicate 17 (Fin 0)"
    by (simp add: onesThenZeros_def validNumbers_append validNumbers_replicate)
  have "foldl (\<lambda>acc x. fadd acc x) (Fin (real (0::nat))) (replicate 23 (Fin 1))
          = Fin (real (0 + 23 :: nat))"
    by (rule reduce_sum_ones) simp
  then have s1: "foldl (\<lambda>acc x. fadd acc x) (Fin 0) (replicate 23 (Fin 1)) = Fin 23"
    by simp
  have s2: "foldl (\<lambda>acc x. fadd acc x) (Fin 23) (replicate 17 (Fin 0)) = Fin 23"
    by (rule reduce_sum_zeros) simp
  have s: "reduce_sum (validNumbers onesThenZeros) = Fin 23"
    by (simp add: v reduce_sum_def s1 s2)
  show ?thesis
    by (simp add: calculateAverageScore_eq s) (simp add: v fl_step_1 fl_step_2 fl_step_3)
qed

lemma fl_step_5: "fl (4149515568880992958512407863691161151012446232242436899995657329690652811412908146399707048947103794288197886611300789182395151075411775307886874834113963687061181803401509523685376) = Fin 4149515568880992958512407863691161151012446232242436899995657329690652811412908146399707048947103794288197886611300789182395151075411775307886874834113963687061181803401509523685376"
  using fl_cert [of "600" "4149515568880992958512407863691161151012446232242436899995657329690652811412908146399707048947103794288197886611300789182395151075411775307886874834113963687061181803401509523685376" "4503599627370496"] by simp

lemma fl_step_6: "fl (16598062275523971834049631454764644604049784928969747599982629318762611245651632585598828195788415177152791546445203156729580604301647101231547499336455854748244727213606038094741504) = Fin 16598062275523971834049631454764644604049784928969747599982629318762611245651632585598828195788415177152791546445203156729580604301647101231547499336455854748244727213606038094741504"
  using fl_cert [of "602" "16598062275523971834049631454764644604049784928969747599982629318762611245651632585598828195788415177152791546445203156729580604301647101231547499336455854748244727213606038094741504" "4503599627370496"] by simp

lemma fl_step_7: "fl (8299031137761985917024815727382322302024892464484873799991314659381305622825816292799414097894207588576395773222601578364790302150823550615773749668227927374122363606803019047370752) = Fin 8299031137761985917024815727382322302024892464484873799991314659381305622825816292799414097894207588576395773222601578364790302150823550615773749668227927374122363606803019047370752"
  using fl_cert [of "601" "8299031137761985917024815727382322302024892464484873799991314659381305622825816292799414097894207588576395773222601578364790302150823550615773749668227927374122363606803019047370752" "4503599627370496"] by simp

lemma fl_step_8: "fl (- 4149515568880992958512407863691161151012446232242436899995657329690652811412908146399707048947103794288197886611300789182395151075411775307886874834113963687061181803401509523685376) = Fin (- 4149515568880992958512407863691161151012446232242436899995657329690652811412908146399707048947103794288197886611300789182395151075411775307886874834113963687061181803401509523685376)"
  using fl_cert [of "600" "- 4149515568880992958512407863691161151012446232242436899995657329690652811412908146399707048947103794288197886611300789182395151075411775307886874834113963687061181803401509523685376" "- 4503599627370496"] by simp

lemma fl_step_9: "fl (1 / 2) = Fin (1 / 2)"
  using fl_cert [of "- 1" "1 / 2" "4503599627370496"] by simp

lemma fl_step_10:
  "fl (17218479456385750618067377696052635483579924745448689921733236816400740691241745619397484537236046173286370919031961587788584927290816661024991609882728717344659503471655990880884679896520055123906467064419056526231345685268240569209892573766037966584735183775739433978714578587782701380797240772477647874555986712746271362892227516205318914435913511141036261376) = PosInf"
  by (rule fl_overflow) simp

lemma sqrt_100 [simp]: "sqrt 100 = 10"
  using real_sqrt_abs [of 10] by simp

subsection \<open>Average\<close>

text \<open>
  Claim C7, as stated, fails. The average of 23 ones and 17 zeros is 23/40, which
  rounds to 0.58 at two decimals; the code divides in double arithmetic, the
  quotient times 100 falls just below 57.5, and the result is the double 0.57.
\<close>

theorem calculateAverageScore_counterexample:
  "validNumbers onesThenZeros = replicate 23 (Fin 1) @ replicate 17 (Fin 0)
   \<and> real_of_int (round ((23 * 1 + 17 * 0) / 40 * 100 :: real)) / 100 = 58 / 100
   \<and> calculateAverageScore onesThenZeros = fl (57 / 100)
   \<and> calculateAverageScore onesThenZeros \<noteq> fl (58 / 100)
   \<and> calculateAverageScore onesThenZeros \<noteq> Fin (58 / 100)"
proof -
  have "validNumbers onesThenZeros = replicate 23 (Fin 1) @ replicate 17 (Fin 0)"
    by (simp add: onesThenZeros_def validNumbers_append validNumbers_replicate)
  moreover have "real_of_int (round ((23 * 1 + 17 * 0) / 40 * 100 :: real)) / 100 = 58 / 100"
    by (simp add: round_def)
  ultimately show ?thesis
    by (simp add: avg_onesThenZeros fl_step_3 fl_step_4)
qed

text \<open>
  Claim C7, amended. \<open>calculateAverageScore\<close> keeps the entries that are numbers
  other than NaN (the infinities stay) and returns 0 when none is left, which
  covers the empty input. Otherwise it returns \<open>Math.round(m * 100) / 100\<close>
  evaluated in double arithmetic, where \<open>m\<close> is the double quotient of the sum of
  the kept entries, added from left to right in double arithmetic, by their
  count. This is the mean rounded to two decimals up to the roundings of the
  double operations. The average of the empty list is 0 and the average of 70,
  80, 90 is 80.
\<close>

theorem calculateAverageScore_spec:
  "(validNumbers xs = [] \<longrightarrow> calculateAverageScore xs = Fin 0)
   \<and> (validNumbers xs \<noteq> [] \<longrightarrow>
        calculateAverageScore xs
          = fdiv (Math_round
                    (fmul (fdiv (foldl (\<lambda>acc x. fadd acc x) (Fin 0) (validNumbers xs))
                                (ofNat (length (validNumbers xs))))
                          (Fin 100)))
                 (Fin 100))
   \<and> set (validNumbers xs) = {n. n \<noteq> NaN \<and> JNumber n \<in> set xs}
   \<and> calculateAverageScore [] = Fin 0
   \<and> calculateAverageScore [JNumber (Fin 70), JNumber (Fin 80), JNumber (Fin 90)] = Fin 80"
proof -
  have c5: "calculateAverageScore [JNumber (Fin 70), JNumber (Fin 80), JNumber (Fin 90)] = Fin 80"
    by (simp add: calculateAverageScore_eq validNumbers_Cons reduce_sum_def ofNat_def)
  have c4: "calculateAverageScore [] = Fin 0"
    by (simp add: calculateAverageScore_eq)
  have c12: "(validNumbers xs = [] \<longrightarrow> calculateAverageScore xs = Fin 0)
   \<and> (validNumbers xs \<noteq> [] \<longrightarrow>
        calculateAverageScore xs
          = fdiv (Math_round
                    (fmul (fdiv (foldl (\<lambda>acc x. fadd acc x) (Fin 0) (validNumbers xs))
                                (ofNat (length (validNumbers xs))))
                          (Fin 100)))
                 (Fin 100))"
    by (simp add: calculateAverageScore_eq reduce_sum_def)
  from c12 set_validNumbers [of xs] c4 c5 show ?thesis by blast
qed

theorem calculateAverageScore_spec_witness:
  "validNumbers [JNumber (Fin 70), JStr ''n/a'', JNumber NaN, JNumber (Fin 80)] \<noteq> []
   \<and> calculateAverageScore [JNumber (Fin 70), JStr ''n/a'', JNumber NaN, JNumber (Fin 80)]
       = Fin 75
   \<and> validNumbers [JUndefined, JNumber NaN] = []
   \<and> calculateAverageScore [JUndefined, JNumber NaN] = Fin 0"
  using calculateAverageScore_spec
      [of "[JNumber (Fin 70), JStr ''n/a'', JNumber NaN, JNumber (Fin 80)]"]
    calculateAverageScore_spec [of "[JUndefined, JNumber NaN]"]
  by (simp add: validNumbers_Cons ofNat_def)

subsection \<open>Standard deviation\<close>

lemma calculateStandardDeviation_eq:
  "calculateStandardDeviation xs =
     (if validNumbers xs = [] then Fin 0
      else fdiv (Math_round (fmul (fsqrt
             (fdiv (reduce_sum
                      (map (\<lambda>v. fmul (fsub v (fdiv (reduce_sum (validNumbers xs))
                                                    (ofNat (length (validNumbers xs)))))
                                      (fsub v (fdiv (reduce_sum (validNumbers xs))
                                                    (ofNat (length (validNumbers xs))))))
                           (validNumbers xs)))
                   (ofNat (length (validNumbers xs))))) (Fin 100))) (Fin 100))"
  by (cases xs) (simp_all add: calculateStandardDeviation_def Let_def)

lemma sd_hugeValues: "calculateStandardDeviation hugeValues = PosInf"
  by (simp add: calculateStandardDeviation_eq hugeValues_def validNumbers_Cons reduce_sum_def
      fsub_def ofNat_def fl_step_5 fl_step_6 fl_step_7 fl_step_8 fl_step_10 signedInf_def)

text \<open>
  Claim C8, as stated, fails. The values \<open>2^600\<close> and \<open>3 * 2^600\<close> have mean
  \<open>2^601\<close> and population standard deviation \<open>2^600\<close>, a double; the squared
  deviations \<open>2^1200\<close> exceed the largest double, so the code returns Infinity.
\<close>

theorem calculateStandardDeviation_counterexample:
  "validNumbers hugeValues = [Fin (2 ^ 600), Fin (3 * 2 ^ 600)]
   \<and> (2 ^ 600 + 3 * 2 ^ 600) / 2 = (2 ^ 601 :: real)
   \<and> sqrt (((2 ^ 600 - 2 ^ 601) ^ 2 + (3 * 2 ^ 600 - 2 ^ 601) ^ 2) / 2) = (2 ^ 600 :: real)
   \<and> real_of_int (round ((2 ^ 600 :: real) * 100)) / 100 = 2 ^ 600
   \<and> calculateStandardDeviation hugeValues = PosInf"
proof -
  have v: "validNumbers hugeValues = [Fin (2 ^ 600), Fin (3 * 2 ^ 600)]"
    by (simp add: hugeValues_def validNumbers_Cons)
  have m: "(2 ^ 600 + 3 * 2 ^ 600) / 2 = (2 ^ 601 :: real)"
    by simp
  have "((2 ^ 600 - 2 ^ 601) ^ 2 + (3 * 2 ^ 600 - 2 ^ 601) ^ 2) / 2 = ((2 ^ 600) ^ 2 :: real)"
    by simp
  then have s: "sqrt (((2 ^ 600 - 2 ^ 601) ^ 2 + (3 * 2 ^ 600 - 2 ^ 601) ^ 2) / 2)
      = (2 ^ 600 :: real)"
    by (simp only: real_sqrt_abs) simp
  have "(2 ^ 600 :: real) * 100 = real_of_int (2 ^ 600 * 100)"
    by simp
  then have "round ((2 ^ 600 :: real) * 100) = 2 ^ 600 * 100"
    by (simp only: round_of_int)
  then have r: "real_of_int (round ((2 ^ 600 :: real) * 100)) / 100 = 2 ^ 600"
    by simp
  from v m s r sd_hugeValues show ?thesis by blast
qed

text \<open>
  Claim C8, amended. \<open>calculateStandardDeviation\<close> returns 0 when no entry is a
  valid number, which covers the empty input. Otherwise, with \<open>n\<close> valid entries
  whose double mean is \<open>m\<close> (the double sum divided by \<open>n\<close>), it returns
  \<open>Math.round(s * 100) / 100\<close> where \<open>s\<close> is the square root of the sum of the
  squares \<open>(v - m) * (v - m)\<close> divided by \<open>n\<close> (the population form, not
  \<open>n - 1\<close>), every operation being a double operation: it rounds to the nearest
  double and overflows to Infinity. The standard deviation of 50, 50, 50 is 0.
\<close>

theorem calculateStandardDeviation_spec:
  "(validNumbers xs = [] \<longrightarrow> calculateStandardDeviation xs = Fin 0)
   \<and> (validNumbers xs \<noteq> [] \<longrightarrow>
        (let vs = validNumbers xs;
             n = ofNat (length vs);
             m = fdiv (foldl (\<lambda>acc x. fadd acc x) (Fin 0) vs) n;
             s = fsqrt (fdiv (foldl (\<lambda>acc x. fadd acc x) (Fin 0)
                                (map (\<lambda>v. fmul (fsub v m) (fsub v m)) vs)) n)
         in calculateStandardDeviation xs = fdiv (Math_round (fmul s (Fin 100))) (Fin 100)))
   \<and> calculateStandardDeviation [] = Fin 0
   \<and> calculateStandardDeviation [JNumber (Fin 50), JNumber (Fin 50), JNumber (Fin 50)] = Fin 0"
proof -
  have c1: "validNumbers xs = [] \<longrightarrow> calculateStandardDeviation xs = Fin 0"
    by (simp add: calculateStandardDeviation_eq)
  have c2: "validNumbers xs \<noteq> [] \<longrightarrow>
        (let vs = validNumbers xs;
             n = ofNat (length vs);
             m = fdiv (foldl (\<lambda>acc x. fadd acc x) (Fin 0) vs) n;
             s = fsqrt (fdiv (foldl (\<lambda>acc x. fadd acc x) (Fin 0)
                                (map (\<lambda>v. fmul (fsub v m) (fsub v m)) vs)) n)
         in calculateStandardDeviation xs = fdiv (Math_round (fmul s (Fin 100))) (Fin 100))"
    by (simp add: calculateStandardDeviation_eq reduce_sum_def Let_def)
  have c3: "calculateStandardDeviation [] = Fin 0"
    by (simp add: calculateStandardDeviation_eq)
  have c4: "calculateStandardDeviation [JNumber (Fin 50), JNumber (Fin 50), JNumber (Fin 50)]
      = Fin 0"
    by (simp add: calculateStandardDeviation_eq validNumbers_Cons reduce_sum_def fsub_def
        ofNat_def)
  from c1 c2 c3 c4 show ?thesis by blast
qed

theorem calculateStandardDeviation_spec_witness:
  "validNumbers [JNumber (Fin 40), JUndefined, JNumber (Fin 60)] \<noteq> []
   \<and> calculateStandardDeviation [JNumber (Fin 40), JUndefined, JNumber (Fin 60)] = Fin 10
   \<and> validNumbers [JStr ''x''] = []
   \<and> calculateStandardDeviation [JStr ''x''] = Fin 0"
  using calculateStandardDeviation_spec [of "[JNumber (Fin 40), JUndefined, JNumber (Fin 60)]"]
    calculateStandardDeviation_spec [of "[JStr ''x'']"]
  by (simp add: validNumbers_Cons Let_def fsub_def ofNat_def)

subsection \<open>Percentile\<close>

lemma calculatePercentile_eq:
  "calculatePercentile x xs =
     (if validNumbers xs = [] then Fin 0
      else Math_round
             (fmul (fdiv (ofNat (length (filter (\<lambda>s. flt s x) (validNumbers xs))))
                         (ofNat (length (validNumbers xs))))
                   (Fin 100)))"
  by (cases xs) (simp_all add: calculatePercentile_def Let_def length_filter_sortBy)

text \<open>
  Claim C9, as stated, fails. With 23 of 40 entries below the score,
  \<open>100 * 23 / 40\<close> is 57.5, which rounds to 58; the code multiplies the double
  quotient \<open>23 / 40\<close> by 100, which falls just below 57.5, and returns 57.
\<close>

theorem calculatePercentile_counterexample:
  "validNumbers zerosThenOnes = replicate 23 (Fin 0) @ replicate 17 (Fin 1)
   \<and> length (validNumbers zerosThenOnes) = 40
   \<and> round (100 * 23 / 40 :: real) = 58
   \<and> calculatePercentile (Fin 1) zerosThenOnes = Fin 57"
proof -
  have v: "validNumbers zerosThenOnes = replicate 23 (Fin 0) @ replicate 17 (Fin 1)"
    by (simp add: zerosThenOnes_def validNumbers_append validNumbers_replicate)
  have b: "length (filter (\<lambda>s. flt s (Fin 1)) (validNumbers zerosThenOnes)) = 23"
    by (simp add: v)
  have n: "length (validNumbers zerosThenOnes) = 40"
    by (simp add: v)
  have r: "round (100 * 23 / 40 :: real) = 58"
    by (simp add: round_def)
  have ne: "validNumbers zerosThenOnes \<noteq> []"
    by (simp add: v)
  have p: "calculatePercentile (Fin 1) zerosThenOnes = Fin 57"
    by (simp add: calculatePercentile_eq ne b n fl_step_1 fl_step_2)
  from v b n r p show ?thesis by blast
qed

text \<open>
  Claim C9, amended. With \<open>n\<close> the number of valid numeric entries of the
  population and \<open>b\<close> the number of those strictly below the score,
  \<open>calculatePercentile\<close> returns \<open>Math.round((b / n) * 100)\<close> evaluated in double
  arithmetic, the quotient being rounded to a double before it is multiplied;
  it returns 0 when the population has no valid entry, which covers the empty
  population. The sort inside the function does not change the count.
\<close>

theorem calculatePercentile_spec:
  "(validNumbers xs = [] \<longrightarrow> calculatePercentile x xs = Fin 0)
   \<and> (validNumbers xs \<noteq> [] \<longrightarrow>
        calculatePercentile x xs
          = Math_round
              (fmul (fdiv (ofNat (length (filter (\<lambda>s. flt s x) (validNumbers xs))))
                          (ofNat (length (validNumbers xs))))
                    (Fin 100)))
   \<and> calculatePercentile x [] = Fin 0"
  by (simp add: calculatePercentile_eq)

theorem calculatePercentile_spec_witness:
  "validNumbers [JNumber (Fin 50), JNumber (Fin 3), JNumber NaN, JNumber (Fin 4),
                 JNumber (Fin 60)] \<noteq> []
   \<and> calculatePercentile (Fin 5)
        [JNumber (Fin 50), JNumber (Fin 3), JNumber NaN, JNumber (Fin 4), JNumber (Fin 60)]
       = Fin 50
   \<and> validNumbers [JNumber NaN] = []
   \<and> calculatePercentile (Fin 5) [JNumber NaN] = Fin 0"
  using calculatePercentile_spec
      [of "[JNumber (Fin 50), JNumber (Fin 3), JNumber NaN, JNumber (Fin 4), JNumber (Fin 60)]"
          "Fin 5"]
    calculatePercentile_spec [of "[JNumber NaN]" "Fin 5"]
  by (simp add: validNumbers_Cons ofNat_def fl_step_9)

lemma fl_step_11: "fl (13 / 10) = Fin (5854679515581645 / 4503599627370496)"
  using fl_cert [of "0" "13 / 10" "5854679515581645"] by simp

lemma fl_step_12: "fl (7 / 10) = Fin (3152519739159347 / 4503599627370496)"
  using fl_cert [of "- 1" "7 / 10" "6305039478318694"] by simp

lemma fl_step_13: "fl (78812993478983675 / 1125899906842624) = Fin 70"
  using fl_cert [of "6" "78812993478983675 / 1125899906842624" "4925812092436480"] by simp

lemma fl_step_14: "fl (204913783045357575 / 2251799813685248) = Fin 91"
  using fl_cert [of "6" "204913783045357575 / 2251799813685248" "6403555720167424"] by simp

lemma fl_step_15: "fl (4 / 5) = Fin (3602879701896397 / 4503599627370496)"
  using fl_cert [of "- 1" "4 / 5" "7205759403792794"] by simp

lemma fl_step_16: "fl (3 / 4) = Fin (3 / 4)"
  using fl_cert [of "- 1" "3 / 4" "6755399441055744"] by simp

lemma fl_step_17: "fl (175 / 2) = Fin (175 / 2)"
  using fl_cert [of "6" "175 / 2" "6157265115545600"] by simp

lemma fl_step_18: "fl (630503947831869475 / 9007199254740992) = Fin 70"
  using fl_cert [of "6" "630503947831869475 / 9007199254740992" "4925812092436480"] by simp

lemma fl_step_19: "fl (3 / 2) = Fin (3 / 2)"
  using fl_cert [of "0" "3 / 2" "6755399441055744"] by simp

subsection \<open>Interview metrics\<close>

lemma m_accuracy_eq:
  "m_accuracy (calculateInterviewMetrics d) =
     (if fgt (orDefault (totalQuestions d) (Fin 0)) (Fin 0)
      then Math_round (fmul (fdiv (orDefault (correctAnswers d) (Fin 0))
                                  (orDefault (totalQuestions d) (Fin 0))) (Fin 100))
      else Fin 0)"
  by (simp add: calculateInterviewMetrics_def Let_def)

lemma m_averageScore_eq:
  "m_averageScore (calculateInterviewMetrics d) = calculateAverageScore (orDefault (scores d) [])"
  by (simp add: calculateInterviewMetrics_def Let_def)

lemma m_weightedScore_eq:
  "m_weightedScore (calculateInterviewMetrics d) =
     fdiv (Math_round (fmul (fmul (calculateAverageScore (orDefault (scores d) []))
                                  (multiplierOf (orDefault (difficulty d) ''medium'')))
                            (Fin 100))) (Fin 100)"
  by (simp add: calculateInterviewMetrics_def Let_def)

lemma m_grade_eq:
  "m_grade (calculateInterviewMetrics d) = gradeOf (m_weightedScore (calculateInterviewMetrics d))"
  by (simp add: calculateInterviewMetrics_def Let_def)

lemma difficultyMultipliers_dom:
  "difficultyMultipliers k =
     (if k = ''easy'' then Some (fl 0.8) else if k = ''medium'' then Some (fl 1.0)
      else if k = ''hard'' then Some (fl 1.3) else if k = ''expert'' then Some (fl 1.5)
      else None)"
  by (simp add: difficultyMultipliers_def)

lemma multiplierOf_eq:
  assumes "toLowerCase d \<notin> set objectPrototypeNames"
  shows "multiplierOf d =
     (if toLowerCase d = ''easy'' then fl 0.8 else if toLowerCase d = ''medium'' then fl 1.0
      else if toLowerCase d = ''hard'' then fl 1.3 else if toLowerCase d = ''expert'' then fl 1.5
      else fl 1.0)"
  using assms
  by (simp add: multiplierOf_def getProperty_def difficultyMultipliers_dom
      fl_step_11 fl_step_15 fl_step_19)

lemma multiplierOf_HARD: "multiplierOf ''HARD'' = fl 1.3"
  by (simp add: multiplierOf_def getProperty_def difficultyMultipliers_dom toLowerCase_def
      toLowerChar_def fl_step_11)

lemma multiplierOf_medium: "multiplierOf ''medium'' = Fin 1"
  by (simp add: multiplierOf_def getProperty_def difficultyMultipliers_dom toLowerCase_def
      toLowerChar_def)

lemma multiplierOf_Expert: "multiplierOf ''Expert'' = fl 1.5"
  by (simp add: multiplierOf_def getProperty_def difficultyMultipliers_dom toLowerCase_def
      toLowerChar_def fl_step_19)

lemma average_single_70: "calculateAverageScore [JNumber (Fin 70)] = Fin 70"
  by (simp add: calculateAverageScore_eq validNumbers_Cons reduce_sum_def)

lemma average_single_50: "calculateAverageScore [JNumber (Fin 50)] = Fin 50"
  by (simp add: calculateAverageScore_eq validNumbers_Cons reduce_sum_def)

lemma weighted_hard_70:
  "fdiv (Math_round (fmul (fmul (Fin 70) (fl 1.3)) (Fin 100))) (Fin 100) = Fin 91"
  by (simp add: fl_step_11 fl_step_14)

text \<open>
  Claim C3, as stated, fails in three places. With 23 correct answers out of 40
  the claimed accuracy \<open>round(100 * 23 / 40)\<close> is 58; the code multiplies the
  double quotient by 100 and returns 57. The difficulty \<open>HARD\<close> is none of easy,
  medium, hard, expert, so the claimed multiplier is 1.0 and the claimed weighted
  score 70 with grade C+; the code lower-cases the difficulty and returns 91 and
  A+. With \<open>-2\<close> questions and one correct answer the claimed accuracy is
  \<open>round(100 * 1 / -2) = -50\<close>; the code returns 0 unless the number of questions
  is positive.
\<close>

theorem calculateInterviewMetrics_counterexample:
  "m_accuracy (calculateInterviewMetrics upperCaseHard) = Fin 57
   \<and> round (100 * 23 / 40 :: real) = 58
   \<and> difficulty upperCaseHard = Some ''HARD''
   \<and> ''HARD'' \<notin> {''easy'', ''medium'', ''hard'', ''expert''}
   \<and> m_averageScore (calculateInterviewMetrics upperCaseHard) = Fin 70
   \<and> m_weightedScore (calculateInterviewMetrics upperCaseHard) = Fin 91
   \<and> m_grade (calculateInterviewMetrics upperCaseHard) = ''A+''
   \<and> totalQuestions negativeTotal = Some (Fin (- 2))
   \<and> correctAnswers negativeTotal = Some (Fin 1)
   \<and> round (100 * 1 / (- 2) :: real) = - 50
   \<and> m_accuracy (calculateInterviewMetrics negativeTotal) = Fin 0"
proof -
  have a: "m_accuracy (calculateInterviewMetrics upperCaseHard) = Fin 57"
    by (simp add: m_accuracy_eq upperCaseHard_def orDefault_def fl_step_1 fl_step_2)
  have r: "round (100 * 23 / 40 :: real) = 58"
    by (simp add: round_def)
  have d: "difficulty upperCaseHard = Some ''HARD''"
    by (simp add: upperCaseHard_def)
  have n: "''HARD'' \<notin> {''easy'', ''medium'', ''hard'', ''expert''}"
    by simp
  have v: "m_averageScore (calculateInterviewMetrics upperCaseHard) = Fin 70"
    by (simp add: m_averageScore_eq upperCaseHard_def orDefault_def average_single_70)
  have w: "m_weightedScore (calculateInterviewMetrics upperCaseHard) = Fin 91"
    by (simp add: m_weightedScore_eq upperCaseHard_def orDefault_def average_single_70
        multiplierOf_HARD weighted_hard_70)
  have g: "m_grade (calculateInterviewMetrics upperCaseHard) = ''A+''"
    by (simp add: m_grade_eq w gradeOf_def)
  have t: "totalQuestions negativeTotal = Some (Fin (- 2))"
    and c: "correctAnswers negativeTotal = Some (Fin 1)"
    by (simp_all add: negativeTotal_def)
  have r': "round (100 * 1 / (- 2) :: real) = - 50"
    by (simp add: round_def)
  have a': "m_accuracy (calculateInterviewMetrics negativeTotal) = Fin 0"
    by (simp add: m_accuracy_eq negativeTotal_def orDefault_def)
  from a r d n v w g t c r' a' show ?thesis by blast
qed

text \<open>
  Claim C3, amended. Let the difficulty, \<open>medium\<close> when absent, be lower-cased,
  and suppose that the result is not the name of a member of \<open>Object.prototype\<close>
  (\<open>constructor\<close>, \<open>__proto__\<close>). Then \<open>calculateInterviewMetrics\<close> returns
  \<^item> accuracy \<open>Math.round((correctAnswers / totalQuestions) * 100)\<close> in double
    arithmetic when \<open>totalQuestions > 0\<close>, and 0 otherwise;
  \<^item> averageScore \<open>calculateAverageScore(scores)\<close>;
  \<^item> weightedScore \<open>Math.round(averageScore * multiplier * 100) / 100\<close> in double
    arithmetic, the multiplier being the double nearest 0.8 for easy, 1.0 for
    medium, 1.3 for hard, 1.5 for expert, and 1.0 for any other lower-cased
    difficulty;
  \<^item> the grade given by the thresholds 90, 85, 80, 75, 70, 65, 60 on weightedScore.

  In particular a lower-cased difficulty \<open>hard\<close> with averageScore 70 yields
  weightedScore 91 and grade A+.
\<close>

theorem calculateInterviewMetrics_spec:
  assumes "toLowerCase (orDefault (difficulty d) ''medium'') \<notin> set objectPrototypeNames"
  shows "(let t = orDefault (totalQuestions d) (Fin 0);
              c = orDefault (correctAnswers d) (Fin 0);
              a = calculateAverageScore (orDefault (scores d) []);
              k = toLowerCase (orDefault (difficulty d) ''medium'');
              multiplier = (if k = ''easy'' then fl 0.8 else if k = ''medium'' then fl 1.0
                            else if k = ''hard'' then fl 1.3 else if k = ''expert'' then fl 1.5
                            else fl 1.0);
              w = fdiv (Math_round (fmul (fmul a multiplier) (Fin 100))) (Fin 100);
              m = calculateInterviewMetrics d
          in m_accuracy m = (if fgt t (Fin 0) then Math_round (fmul (fdiv c t) (Fin 100))
                             else Fin 0)
           \<and> m_averageScore m = a
           \<and> m_weightedScore m = w
           \<and> m_grade m = (if fge w (Fin 90) then ''A+'' else if fge w (Fin 85) then ''A''
                          else if fge w (Fin 80) then ''B+'' else if fge w (Fin 75) then ''B''
                          else if fge w (Fin 70) then ''C+'' else if fge w (Fin 65) then ''C''
                          else if fge w (Fin 60) then ''D'' else ''F'')
           \<and> (k = ''hard'' \<and> a = Fin 70 \<longrightarrow> w = Fin 91 \<and> m_grade m = ''A+''))"
proof -
  let ?k = "toLowerCase (orDefault (difficulty d) ''medium'')"
  let ?a = "calculateAverageScore (orDefault (scores d) [])"
  let ?mult = "if ?k = ''easy'' then fl 0.8 else if ?k = ''medium'' then fl 1.0
               else if ?k = ''hard'' then fl 1.3 else if ?k = ''expert'' then fl 1.5
               else fl 1.0"
  let ?w = "fdiv (Math_round (fmul (fmul ?a ?mult) (Fin 100))) (Fin 100)"
  let ?m = "calculateInterviewMetrics d"
  have mult: "multiplierOf (orDefault (difficulty d) ''medium'') = ?mult"
    using assms by (rule multiplierOf_eq)
  have w: "m_weightedScore ?m = ?w"
    by (simp only: m_weightedScore_eq mult)
  have g: "m_grade ?m = gradeOf ?w"
    by (simp only: m_grade_eq w)
  have ex: "?k = ''hard'' \<and> ?a = Fin 70 \<longrightarrow> ?w = Fin 91 \<and> m_grade ?m = ''A+''"
  proof
    assume h: "?k = ''hard'' \<and> ?a = Fin 70"
    then have "?w = fdiv (Math_round (fmul (fmul (Fin 70) (fl 1.3)) (Fin 100))) (Fin 100)"
      by simp
    then have "?w = Fin 91"
      by (simp only: weighted_hard_70)
    then show "?w = Fin 91 \<and> m_grade ?m = ''A+''"
      by (simp add: g gradeOf_def)
  qed
  show ?thesis
    unfolding Let_def
    using m_accuracy_eq [of d] m_averageScore_eq [of d] w g ex
    by (simp only: gradeOf_def)
qed

theorem calculateInterviewMetrics_spec_witness:
  "toLowerCase (orDefault (difficulty expertInterview) ''medium'') = ''expert''
   \<and> ''expert'' \<notin> set objectPrototypeNames
   \<and> m_accuracy (calculateInterviewMetrics expertInterview) = Fin 75
   \<and> m_averageScore (calculateInterviewMetrics expertInterview) = Fin 50
   \<and> m_weightedScore (calculateInterviewMetrics expertInterview) = Fin 75
   \<and> m_grade (calculateInterviewMetrics expertInterview) = ''B''"
proof -
  have k: "toLowerCase (orDefault (difficulty expertInterview) ''medium'') = ''expert''"
    by (simp add: expertInterview_def orDefault_def toLowerCase_def toLowerChar_def)
  have n: "''expert'' \<notin> set objectPrototypeNames"
    by (simp add: objectPrototypeNames_def)
  have f: "orDefault (totalQuestions expertInterview) (Fin 0) = Fin 4"
    "orDefault (correctAnswers expertInterview) (Fin 0) = Fin 3"
    "orDefault (scores expertInterview) [] = [JNumber (Fin 50)]"
    by (simp_all add: expertInterview_def orDefault_def)
  from k n have "toLowerCase (orDefault (difficulty expertInterview) ''medium'')
      \<notin> set objectPrototypeNames"
    by simp
  from calculateInterviewMetrics_spec [OF this] k n show ?thesis
    by (simp add: Let_def f average_single_50 fl_step_16 fl_step_19)
qed

lemma fl_step_20: "fl (2 / 3) = Fin (6004799503160661 / 9007199254740992)"
  using fl_cert [of "- 1" "2 / 3" "6004799503160661"] by simp

lemma fl_step_21: "fl (150119987579016525 / 2251799813685248) = Fin (2345624805922133 / 35184372088832)"
  using fl_cert [of "6" "150119987579016525 / 2251799813685248" "4691249611844266"] by simp

lemma fl_step_22: "fl (67 / 100) = Fin (6034823500676465 / 9007199254740992)"
  using fl_cert [of "- 1" "67 / 100" "6034823500676465"] by simp

lemma fl_step_23: "fl (1531223873305969 / 9007199254740992) = Fin (1531223873305969 / 9007199254740992)"
  using fl_cert [of "- 3" "1531223873305969 / 9007199254740992" "6124895493223876"] by simp

lemma fl_step_24: "fl (38280596832649225 / 2251799813685248) = Fin (4785074604081153 / 281474976710656)"
  using fl_cert [of "4" "38280596832649225 / 2251799813685248" "4785074604081153"] by simp

lemma fl_step_25: "fl (17 / 100) = Fin (6124895493223875 / 36028797018963968)"
  using fl_cert [of "- 3" "17 / 100" "6124895493223875"] by simp

subsection \<open>Progress analytics\<close>

lemma pushSkill_returns:
  assumes "skill \<notin> set objectPrototypeNames"
  shows "\<exists>m'. pushSkill m skill v = Inr m'"
  using assms by (simp add: pushSkill_def getProperty_def split: option.splits)

lemma pushSkills_returns:
  assumes "\<forall>s\<in>set ss. s \<notin> set objectPrototypeNames"
  shows "\<exists>m'. pushSkills m ss v = Inr m'"
  using assms
proof (induction ss arbitrary: m)
  case Nil
  show ?case by simp
next
  case (Cons s ss)
  from Cons.prems have "s \<notin> set objectPrototypeNames" by simp
  then obtain m1 where m1: "pushSkill m s v = Inr m1"
    using pushSkill_returns by blast
  from Cons.prems have "\<forall>s\<in>set ss. s \<notin> set objectPrototypeNames" by simp
  then obtain m2 where "pushSkills m1 ss v = Inr m2"
    using Cons.IH by blast
  with m1 show ?case by simp
qed

lemma collectSkills_returns:
  assumes "\<forall>i\<in>set xs. \<forall>s\<in>set (orDefault (skills i) []). s \<notin> set objectPrototypeNames"
  shows "\<exists>m'. collectSkills m xs = Inr m'"
  using assms
proof (induction xs arbitrary: m)
  case Nil
  show ?case by simp
next
  case (Cons x xs)
  have rest: "\<exists>m'. collectSkills m0 xs = Inr m'" for m0
    using Cons.prems by (intro Cons.IH) simp
  show ?case
  proof (cases "skills x")
    case None
    with rest show ?thesis by simp
  next
    case (Some ss)
    with Cons.prems have "\<forall>s\<in>set ss. s \<notin> set objectPrototypeNames"
      by (simp add: orDefault_def)
    then obtain m1 where "pushSkills m ss (js_or (score x) (JNumber (Fin 0))) = Inr m1"
      using pushSkills_returns by blast
    with Some rest [of m1] show ?thesis by simp
  qed
qed

lemma calculateProgressAnalytics_returns:
  assumes "\<forall>i\<in>set xs. \<forall>s\<in>set (orDefault (skills i) []). s \<notin> set objectPrototypeNames"
  shows "\<exists>r. calculateProgressAnalytics now xs = Inr r"
proof (cases "xs = []")
  case True
  then show ?thesis by (simp add: calculateProgressAnalytics_def)
next
  case False
  from assms have "\<forall>i\<in>set (sort_key createdAt xs).
      \<forall>s\<in>set (orDefault (skills i) []). s \<notin> set objectPrototypeNames"
    by simp
  then obtain m where "collectSkills [] (sort_key createdAt xs) = Inr m"
    using collectSkills_returns by blast
  with False show ?thesis by (simp add: calculateProgressAnalytics_def Let_def)
qed

lemma calculateProgressAnalytics_empty:
  "calculateProgressAnalytics now [] =
     Inr \<lparr> p_totalInterviews = 0, p_averageScore = Fin 0, p_improvement = Fin 0,
           p_consistency = Fin 0, p_streak = 0, p_topSkills = Ordered [],
           p_weakAreas = Ordered [], p_trend = ''neutral'', p_recentScores = None,
           p_firstScore = None, p_latestScore = None \<rparr>"
  by (simp add: calculateProgressAnalytics_def)

lemma p_improvement_eq:
  assumes "calculateProgressAnalytics now xs = Inr r" and "xs \<noteq> []"
  shows "p_improvement r =
     fdiv (Math_round (fmul
        (fsub (calculateAverageScore
                 (drop (length xs div 2)
                    (map (\<lambda>i. js_or (score i) (JNumber (Fin 0))) (sort_key createdAt xs))))
              (calculateAverageScore
                 (take (length xs div 2)
                    (map (\<lambda>i. js_or (score i) (JNumber (Fin 0))) (sort_key createdAt xs)))))
        (Fin 100))) (Fin 100)"
  using assms
  by (auto simp add: calculateProgressAnalytics_def Let_def split: sum.splits)

lemma p_trend_eq:
  assumes "calculateProgressAnalytics now xs = Inr r" and "xs \<noteq> []"
  shows "p_trend r = trendOf (p_improvement r)"
  using assms
  by (auto simp add: calculateProgressAnalytics_def Let_def split: sum.splits)

lemma p_averageScore_eq:
  assumes "calculateProgressAnalytics now xs = Inr r" and "xs \<noteq> []"
  shows "p_averageScore r =
     calculateAverageScore (map (\<lambda>i. js_or (score i) (JNumber (Fin 0))) (sort_key createdAt xs))"
  using assms
  by (auto simp add: calculateProgressAnalytics_def Let_def split: sum.splits)

lemma p_consistency_eq:
  assumes "calculateProgressAnalytics now xs = Inr r" and "xs \<noteq> []"
  shows "p_consistency r =
     fdiv (Math_round (fmul
        (fsub (Fin 100)
           (calculateStandardDeviation
              (map (\<lambda>i. js_or (score i) (JNumber (Fin 0))) (sort_key createdAt xs))))
        (Fin 100))) (Fin 100)"
  using assms
  by (auto simp add: calculateProgressAnalytics_def Let_def split: sum.splits)

lemma p_streak_eq:
  assumes "calculateProgressAnalytics now xs = Inr r" and "xs \<noteq> []"
  shows "p_streak r = calculateStreak now (sort_key createdAt xs)"
  using assms
  by (auto simp add: calculateProgressAnalytics_def Let_def split: sum.splits)

lemma trendOf_cases:
  "(trendOf v = ''improving'' \<longleftrightarrow> fgt v (Fin 5))
   \<and> (trendOf v = ''declining'' \<longleftrightarrow> \<not> fgt v (Fin 5) \<and> flt v (Fin (- 5)))
   \<and> (trendOf v = ''neutral'' \<longleftrightarrow> \<not> fgt v (Fin 5) \<and> \<not> flt v (Fin (- 5)))"
  by (simp add: trendOf_def)

lemma not_both_trends: "flt v (Fin (- 5)) \<Longrightarrow> \<not> fgt v (Fin 5)"
  by (cases v) (simp_all add: fgt_def)

lemma inherited_skill_raises:
  "calculateProgressAnalytics now inheritedSkillInterviews = Inl TypeError"
  by (simp add: calculateProgressAnalytics_def inheritedSkillInterviews_def Let_def
      pushSkill_def getProperty_def objectPrototypeNames_def js_or_def)

lemma fiveInterviews_scores:
  "map (\<lambda>i. js_or (score i) (JNumber (Fin 0))) (sort_key createdAt fiveInterviews)
     = [JNumber (Fin 0), JNumber (Fin 1), JNumber (Fin 0), JNumber (Fin 0), JNumber (Fin 2)]"
  by (simp add: fiveInterviews_def msPerDay_def js_or_def)

lemma average_zero_one: "calculateAverageScore [JNumber (Fin 0), JNumber (Fin 1)] = Fin (1 / 2)"
  by (simp add: calculateAverageScore_eq validNumbers_Cons reduce_sum_def ofNat_def fl_step_9)

lemma average_zero_zero_two:
  "calculateAverageScore [JNumber (Fin 0), JNumber (Fin 0), JNumber (Fin 2)] = fl (67 / 100)"
  by (simp add: calculateAverageScore_eq validNumbers_Cons reduce_sum_def ofNat_def
      fl_step_20 fl_step_21 fl_step_22)

lemma fiveInterviews_improvement:
  assumes "calculateProgressAnalytics now fiveInterviews = Inr r"
  shows "p_improvement r = fl (17 / 100)"
proof -
  have ne: "fiveInterviews \<noteq> []" and len: "length fiveInterviews = 5"
    by (simp_all add: fiveInterviews_def)
  show ?thesis
    by (simp add: p_improvement_eq [OF assms ne] fiveInterviews_scores len
        average_zero_one average_zero_zero_two fsub_def
        fl_step_22 fl_step_23 fl_step_24 fl_step_25)
qed

text \<open>
  Claim C4, as stated, fails. For five interviews scored 0, 1, 0, 0, 2 by date
  the first half is 0, 1 with average 0.5 and the second half 0, 0, 2 with
  average 0.67, the double \<open>6034823500676465 / 2^53\<close>. The difference of the two
  averages is \<open>1531223873305969 / 2^53\<close>, which is a double (0.17000000000000004),
  whether it is taken exactly or in double arithmetic. The code rounds the
  difference to two decimals once more and returns the double nearest 0.17,
  which is \<open>6124895493223875 / 2^55\<close>.
\<close>

theorem calculateProgressAnalytics_counterexample:
  "map score (sort_key createdAt fiveInterviews)
     = [JNumber (Fin 0), JNumber (Fin 1), JNumber (Fin 0), JNumber (Fin 0), JNumber (Fin 2)]
   \<and> length fiveInterviews div 2 = 2
   \<and> calculateAverageScore [JNumber (Fin 0), JNumber (Fin 1)] = Fin (1 / 2)
   \<and> calculateAverageScore [JNumber (Fin 0), JNumber (Fin 0), JNumber (Fin 2)]
       = Fin (6034823500676465 / 9007199254740992)
   \<and> fsub (Fin (6034823500676465 / 9007199254740992)) (Fin (1 / 2))
       = Fin (6034823500676465 / 9007199254740992 - 1 / 2)
   \<and> map_sum id p_improvement (calculateProgressAnalytics (6 * msPerDay) fiveInterviews)
       = Inr (Fin (6124895493223875 / 36028797018963968))
   \<and> (6034823500676465 / 9007199254740992 - 1 / 2 :: real)
       \<noteq> 6124895493223875 / 36028797018963968"
proof -
  have s: "map score (sort_key createdAt fiveInterviews)
     = [JNumber (Fin 0), JNumber (Fin 1), JNumber (Fin 0), JNumber (Fin 0), JNumber (Fin 2)]"
    by (simp add: fiveInterviews_def msPerDay_def)
  have l: "length fiveInterviews div 2 = 2"
    by (simp add: fiveInterviews_def)
  have a2: "calculateAverageScore [JNumber (Fin 0), JNumber (Fin 0), JNumber (Fin 2)]
       = Fin (6034823500676465 / 9007199254740992)"
    by (simp add: average_zero_zero_two fl_step_22)
  have d: "fsub (Fin (6034823500676465 / 9007199254740992)) (Fin (1 / 2))
       = Fin (6034823500676465 / 9007199254740992 - 1 / 2)"
    by (simp add: fsub_def fl_step_23)
  have "\<forall>i\<in>set fiveInterviews. \<forall>s\<in>set (orDefault (skills i) []).
      s \<notin> set objectPrototypeNames"
    by (simp add: fiveInterviews_def orDefault_def)
  then obtain r where r: "calculateProgressAnalytics (6 * msPerDay) fiveInterviews = Inr r"
    using calculateProgressAnalytics_returns by blast
  have i: "map_sum id p_improvement (calculateProgressAnalytics (6 * msPerDay) fiveInterviews)
       = Inr (Fin (6124895493223875 / 36028797018963968))"
    by (simp add: r fiveInterviews_improvement [OF r] fl_step_25)
  have n: "(6034823500676465 / 9007199254740992 - 1 / 2 :: real)
       \<noteq> 6124895493223875 / 36028797018963968"
    by simp
  from s l average_zero_one a2 d i n show ?thesis by blast
qed

text \<open>
  Claim C4, amended. For the empty list \<open>calculateProgressAnalytics\<close> returns the
  zeroed result with trend \<open>neutral\<close>. For a list in which no interview lists a
  skill named like a member of \<open>Object.prototype\<close> it returns a result. Whenever
  it returns a result for a non-empty list of \<open>n\<close> interviews, the scores in
  date order, a falsy score read as 0, are split into the first \<open>floor(n / 2)\<close>
  and the rest; improvement is
  \<open>Math.round((Average(second half) - Average(first half)) * 100) / 100\<close> in double
  arithmetic, the difference rounded to two decimals; and trend is \<open>improving\<close>
  exactly when improvement \<open>> 5\<close>, \<open>declining\<close> exactly when improvement \<open>< -5\<close>,
  and \<open>neutral\<close> otherwise.
\<close>

theorem calculateProgressAnalytics_improvement:
  "calculateProgressAnalytics now [] =
     Inr \<lparr> p_totalInterviews = 0, p_averageScore = Fin 0, p_improvement = Fin 0,
           p_consistency = Fin 0, p_streak = 0, p_topSkills = Ordered [],
           p_weakAreas = Ordered [], p_trend = ''neutral'', p_recentScores = None,
           p_firstScore = None, p_latestScore = None \<rparr>
   \<and> ((\<forall>i\<in>set xs. \<forall>s\<in>set (orDefault (skills i) []). s \<notin> set objectPrototypeNames)
        \<longrightarrow> (\<exists>r'. calculateProgressAnalytics now xs = Inr r'))
   \<and> (xs \<noteq> [] \<and> calculateProgressAnalytics now xs = Inr r \<longrightarrow>
        (let vs = map (\<lambda>i. js_or (score i) (JNumber (Fin 0))) (sort_key createdAt xs);
             firstHalf = take (length xs div 2) vs;
             secondHalf = drop (length xs div 2) vs
         in length firstHalf = length xs div 2
          \<and> firstHalf @ secondHalf = vs
          \<and> p_improvement r
              = fdiv (Math_round (fmul (fsub (calculateAverageScore secondHalf)
                                             (calculateAverageScore firstHalf)) (Fin 100)))
                     (Fin 100)
          \<and> (p_trend r = ''improving'' \<longleftrightarrow> fgt (p_improvement r) (Fin 5))
          \<and> (p_trend r = ''declining'' \<longleftrightarrow> flt (p_improvement r) (Fin (- 5)))
          \<and> (p_trend r = ''neutral''
               \<longleftrightarrow> \<not> fgt (p_improvement r) (Fin 5) \<and> \<not> flt (p_improvement r) (Fin (- 5)))))"
proof -
  have c2: "(\<forall>i\<in>set xs. \<forall>s\<in>set (orDefault (skills i) []). s \<notin> set objectPrototypeNames)
        \<longrightarrow> (\<exists>r'. calculateProgressAnalytics now xs = Inr r')"
    using calculateProgressAnalytics_returns by blast
  have c3: "xs \<noteq> [] \<and> calculateProgressAnalytics now xs = Inr r \<longrightarrow>
        (let vs = map (\<lambda>i. js_or (score i) (JNumber (Fin 0))) (sort_key createdAt xs);
             firstHalf = take (length xs div 2) vs;
             secondHalf = drop (length xs div 2) vs
         in length firstHalf = length xs div 2
          \<and> firstHalf @ secondHalf = vs
          \<and> p_improvement r
              = fdiv (Math_round (fmul (fsub (calculateAverageScore secondHalf)
                                             (calculateAverageScore firstHalf)) (Fin 100)))
                     (Fin 100)
          \<and> (p_trend r = ''improving'' \<longleftrightarrow> fgt (p_improvement r) (Fin 5))
          \<and> (p_trend r = ''declining'' \<longleftrightarrow> flt (p_improvement r) (Fin (- 5)))
          \<and> (p_trend r = ''neutral''
               \<longleftrightarrow> \<not> fgt (p_improvement r) (Fin 5) \<and> \<not> flt (p_improvement r) (Fin (- 5))))"
  proof
    assume h: "xs \<noteq> [] \<and> calculateProgressAnalytics now xs = Inr r"
    then have ne: "xs \<noteq> []" and r: "calculateProgressAnalytics now xs = Inr r"
      by simp_all
    have t: "p_trend r = trendOf (p_improvement r)"
      using r ne by (rule p_trend_eq)
    have d: "flt (p_improvement r) (Fin (- 5)) \<Longrightarrow> \<not> fgt (p_improvement r) (Fin 5)"
      by (rule not_both_trends)
    have len: "length (take (length xs div 2)
        (map (\<lambda>i. js_or (score i) (JNumber (Fin 0))) (sort_key createdAt xs))) = length xs div 2"
      by simp
    show "let vs = map (\<lambda>i. js_or (score i) (JNumber (Fin 0))) (sort_key createdAt xs);
             firstHalf = take (length xs div 2) vs;
             secondHalf = drop (length xs div 2) vs
         in length firstHalf = length xs div 2
          \<and> firstHalf @ secondHalf = vs
          \<and> p_improvement r
              = fdiv (Math_round (fmul (fsub (calculateAverageScore secondHalf)
                                             (calculateAverageScore firstHalf)) (Fin 100)))
                     (Fin 100)
          \<and> (p_trend r = ''improving'' \<longleftrightarrow> fgt (p_improvement r) (Fin 5))
          \<and> (p_trend r = ''declining'' \<longleftrightarrow> flt (p_improvement r) (Fin (- 5)))
          \<and> (p_trend r = ''neutral''
               \<longleftrightarrow> \<not> fgt (p_improvement r) (Fin 5) \<and> \<not> flt (p_improvement r) (Fin (- 5)))"
      unfolding Let_def
      using len p_improvement_eq [OF r ne] trendOf_cases [of "p_improvement r"] t d
      by (simp only: append_take_drop_id) blast
  qed
  from calculateProgressAnalytics_empty [of now] c2 c3 show ?thesis
    by (rule conjI [OF _ conjI])
qed

theorem calculateProgressAnalytics_improvement_witness:
  "map_sum id p_improvement (calculateProgressAnalytics (5 * msPerDay) fourInterviews)
     = Inr (Fin 30)
   \<and> map_sum id p_trend (calculateProgressAnalytics (5 * msPerDay) fourInterviews)
     = Inr ''improving''"
proof -
  have names: "\<forall>i\<in>set fourInterviews. \<forall>s\<in>set (orDefault (skills i) []).
      s \<notin> set objectPrototypeNames"
    by (simp add: fourInterviews_def orDefault_def objectPrototypeNames_def)
  have ne: "fourInterviews \<noteq> []" and len: "length fourInterviews = 4"
    by (simp_all add: fourInterviews_def)
  have vs: "map (\<lambda>i. js_or (score i) (JNumber (Fin 0))) (sort_key createdAt fourInterviews)
      = [JNumber (Fin 60), JNumber (Fin 70), JNumber (Fin 90), JNumber (Fin 100)]"
    by (simp add: fourInterviews_def msPerDay_def js_or_def)
  have a1: "calculateAverageScore [JNumber (Fin 60), JNumber (Fin 70)] = Fin 65"
    by (simp add: calculateAverageScore_eq validNumbers_Cons reduce_sum_def ofNat_def)
  have a2: "calculateAverageScore [JNumber (Fin 90), JNumber (Fin 100)] = Fin 95"
    by (simp add: calculateAverageScore_eq validNumbers_Cons reduce_sum_def ofNat_def)
  from names calculateProgressAnalytics_improvement [of "5 * msPerDay" fourInterviews]
  obtain r where r: "calculateProgressAnalytics (5 * msPerDay) fourInterviews = Inr r"
    by blast
  from calculateProgressAnalytics_improvement [of "5 * msPerDay" fourInterviews r] ne r
  have "p_improvement r = Fin 30 \<and> p_trend r = ''improving''"
    by (simp add: Let_def vs len a1 a2 fsub_def)
  with r show ?thesis by simp
qed

subsection \<open>Streak\<close>

lemma streak_daily:
  "map_sum id p_streak (calculateProgressAnalytics sameDayNow dailyInterviews) = Inr 2
   \<and> consecutiveDays sameDayNow dailyInterviews = 2"
proof -
  have "\<forall>i\<in>set dailyInterviews. \<forall>s\<in>set (orDefault (skills i) []).
      s \<notin> set objectPrototypeNames"
    by (simp add: dailyInterviews_def orDefault_def)
  then obtain r where r: "calculateProgressAnalytics sameDayNow dailyInterviews = Inr r"
    using calculateProgressAnalytics_returns by blast
  have ne: "dailyInterviews \<noteq> []"
    by (simp add: dailyInterviews_def)
  have "p_streak r = 2"
    by (simp add: p_streak_eq [OF r ne] calculateStreak_def dailyInterviews_def sameDayNow_def
        setHoursZero_def msPerDay_def hourMs_def Let_def)
  moreover have "consecutiveDays sameDayNow dailyInterviews = 2"
    by (simp add: dailyInterviews_def sameDayNow_def consecutiveDays_def dayNumber_def
        msPerDay_def hourMs_def upt_rec)
  ultimately show ?thesis by (simp add: r)
qed

text \<open>
  Claim C2 does not hold of the code. With two interviews today and one
  yesterday, two consecutive days hold an interview, so the streak of the claim
  is 2; the loop compares the day distance of each interview, not of each day,
  with the running counter, so the second interview of today (distance 0 against
  counter 1) ends the loop and the streak returned is 1.
\<close>

theorem streak_same_day_interviews:
  "map_sum id p_streak (calculateProgressAnalytics sameDayNow sameDayInterviews) = Inr 1
   \<and> consecutiveDays sameDayNow sameDayInterviews = 2"
proof -
  have "\<forall>i\<in>set sameDayInterviews. \<forall>s\<in>set (orDefault (skills i) []).
      s \<notin> set objectPrototypeNames"
    by (simp add: sameDayInterviews_def orDefault_def)
  then obtain r where r: "calculateProgressAnalytics sameDayNow sameDayInterviews = Inr r"
    using calculateProgressAnalytics_returns by blast
  have ne: "sameDayInterviews \<noteq> []"
    by (simp add: sameDayInterviews_def)
  have "p_streak r = 1"
    by (simp add: p_streak_eq [OF r ne] calculateStreak_def sameDayInterviews_def sameDayNow_def
        setHoursZero_def msPerDay_def hourMs_def Let_def)
  moreover have "consecutiveDays sameDayNow sameDayInterviews = 2"
    by (simp add: sameDayInterviews_def sameDayNow_def consecutiveDays_def dayNumber_def
        msPerDay_def hourMs_def upt_rec)
  ultimately show ?thesis by (simp add: r)
qed

lemma fl_step_26: "fl (1 / 5) = Fin (3602879701896397 / 18014398509481984)"
  using fl_cert [of "- 3" "1 / 5" "7205759403792794"] by simp

lemma fl_step_27: "fl (18014398509481985 / 4503599627370496) = Fin 4"
  using fl_cert [of "2" "18014398509481985 / 4503599627370496" "4503599627370496"] by simp

lemma fl_step_28: "fl (3 / 10) = Fin (5404319552844595 / 18014398509481984)"
  using fl_cert [of "- 2" "3 / 10" "5404319552844595"] by simp

lemma fl_step_29: "fl (340472131829209485 / 18014398509481984) = Fin (2659938529915699 / 140737488355328)"
  using fl_cert [of "4" "340472131829209485 / 18014398509481984" "5319877059831398"] by simp

lemma fl_step_30: "fl (3 / 20) = Fin (5404319552844595 / 36028797018963968)"
  using fl_cert [of "- 3" "3 / 20" "5404319552844595"] by simp

lemma fl_step_31: "fl (264811658089385155 / 18014398509481984) = Fin (4137682157646643 / 281474976710656)"
  using fl_cert [of "3" "264811658089385155 / 18014398509481984" "8275364315293286"] by simp

lemma fl_step_32: "fl (90071992547409925 / 9007199254740992) = Fin 10"
  using fl_cert [of "3" "90071992547409925 / 9007199254740992" "5629499534213120"] by simp

lemma fl_step_33: "fl (124299349715425685 / 18014398509481984) = Fin (7768709357214105 / 1125899906842624)"
  using fl_cert [of "2" "124299349715425685 / 18014398509481984" "7768709357214105"] by simp

lemma fl_step_34: "fl (3222888483337011 / 140737488355328) = Fin (3222888483337011 / 140737488355328)"
  using fl_cert [of "4" "3222888483337011 / 140737488355328" "6445776966674022"] by simp

lemma fl_step_35: "fl (10583459124320665 / 281474976710656) = Fin (1322932390540083 / 35184372088832)"
  using fl_cert_tie [of "5" "10583459124320665 / 281474976710656" "5291729562160332" "5291729562160332"] by simp

lemma fl_step_36: "fl (1674776111428403 / 35184372088832) = Fin (1674776111428403 / 35184372088832)"
  using fl_cert [of "5" "1674776111428403 / 35184372088832" "6699104445713612"] by simp

lemma fl_step_37: "fl (61361544922923001 / 1125899906842624) = Fin (7670193115365375 / 140737488355328)"
  using fl_cert [of "5" "61361544922923001 / 1125899906842624" "7670193115365375"] by simp

lemma fl_step_38: "fl (18014398509481985 / 9007199254740992) = Fin 2"
  using fl_cert [of "1" "18014398509481985 / 9007199254740992" "4503599627370496"] by simp

lemma fl_step_39: "fl (189151184349560825 / 9007199254740992) = Fin 21"
  using fl_cert [of "4" "189151184349560825 / 9007199254740992" "5910974510923776"] by simp

lemma fl_step_40: "fl (135107988821114875 / 9007199254740992) = Fin 15"
  using fl_cert [of "3" "135107988821114875 / 9007199254740992" "8444249301319680"] by simp

lemma fl_step_41: "fl (405323966463344625 / 9007199254740992) = Fin 45"
  using fl_cert [of "5" "405323966463344625 / 9007199254740992" "6333186975989760"] by simp

lemma fl_step_42: "fl (- (135107988821114875 / 18014398509481984)) = Fin (- (15 / 2))"
  using fl_cert [of "2" "- (135107988821114875 / 18014398509481984)" "- 8444249301319680"] by simp

lemma fl_step_43: "fl (83 / 2) = Fin (83 / 2)"
  using fl_cert [of "5" "83 / 2" "5840605766746112"] by simp

lemma fl_step_44: "fl (113 / 2) = Fin (113 / 2)"
  using fl_cert [of "5" "113 / 2" "7951668092076032"] by simp

lemma fl_step_45: "fl (27021597764222975 / 1125899906842624) = Fin 24"
  using fl_cert [of "4" "27021597764222975 / 1125899906842624" "6755399441055744"] by simp

lemma fl_step_46: "fl (135107988821114875 / 18014398509481984) = Fin (15 / 2)"
  using fl_cert [of "2" "135107988821114875 / 18014398509481984" "8444249301319680"] by simp

lemma fl_step_47: "fl (121 / 2) = Fin (121 / 2)"
  using fl_cert [of "5" "121 / 2" "8514618045497344"] by simp

lemma fl_step_48: "fl (15 / 2) = Fin (15 / 2)"
  using fl_cert [of "2" "15 / 2" "8444249301319680"] by simp

lemma sqrt_22500 [simp]: "sqrt 22500 = 150"
  using real_sqrt_abs [of 150] by simp

subsection \<open>Readiness score\<close>

lemma calculateReadinessScore_progress:
  assumes "calculateReadinessScore now ud = Inr r"
  shows "\<exists>p. calculateProgressAnalytics now (orDefault (ud_interviews ud) []) = Inr p"
  using assms by (simp add: calculateReadinessScore_def split: sum.splits)

lemma calculateReadinessScore_returns:
  assumes "calculateProgressAnalytics now (orDefault (ud_interviews ud) []) = Inr p"
  shows "\<exists>r. calculateReadinessScore now ud = Inr r"
  using assms by (simp add: calculateReadinessScore_def Let_def)

lemma rs_readinessScore_eq:
  assumes "calculateProgressAnalytics now (orDefault (ud_interviews ud) []) = Inr p"
    and "calculateReadinessScore now ud = Inr r"
  shows "rs_readinessScore r =
     Math_round
       (fadd (fadd (fadd (fadd
          (fmul (Math_min (fmul (ofNat (length (filter (\<lambda>i. now - 30 * msPerDay \<le> createdAt i)
                                                  (orDefault (ud_interviews ud) []))))
                                (Fin 10)) (Fin 100)) (fl 0.2))
          (fmul (p_averageScore p) (fl 0.3)))
          (fmul (p_consistency p) (fl 0.15)))
          (fmul (Math_min (fmul (fdiv (ofNat (length (orDefault (ud_skills ud) []))) (Fin 10))
                                (Fin 100)) (Fin 100)) (fl 0.2)))
          (fmul (Math_min (Math_max (fadd (Fin 50) (p_improvement p)) (Fin 0)) (Fin 100))
                (fl 0.15)))"
  using assms
  by (auto simp add: calculateReadinessScore_def readinessComponents_def Let_def)

lemma rs_readinessLevel_eq:
  assumes "calculateReadinessScore now ud = Inr r"
  shows "rs_readinessLevel r = readinessLevelOf (rs_readinessScore r)"
  using assms
  by (auto simp add: calculateReadinessScore_def Let_def split: sum.splits)

lemma rs_breakdown_eq:
  assumes "calculateProgressAnalytics now (orDefault (ud_interviews ud) []) = Inr p"
    and "calculateReadinessScore now ud = Inr r"
  shows "rs_breakdown r =
     \<lparr> b_practiceFrequency =
         Math_round (Math_min (fmul (ofNat (length (filter (\<lambda>i. now - 30 * msPerDay \<le> createdAt i)
                                                      (orDefault (ud_interviews ud) []))))
                                    (Fin 10)) (Fin 100)),
       b_averageScore = Math_round (p_averageScore p),
       b_consistency = Math_round (p_consistency p),
       b_skillCoverage =
         Math_round (Math_min (fmul (fdiv (ofNat (length (orDefault (ud_skills ud) []))) (Fin 10))
                                    (Fin 100)) (Fin 100)),
       b_recentImprovement =
         Math_round (Math_min (Math_max (fadd (Fin 50) (p_improvement p)) (Fin 0)) (Fin 100)) \<rparr>"
  using assms
  by (auto simp add: calculateReadinessScore_def readinessComponents_def Let_def)

lemma Math_min_Fin [simp]: "Math_min (Fin a) (Fin b) = Fin (min a b)"
  by (simp add: Math_min_def min_def)

lemma Math_max_Fin [simp]: "Math_max (Fin a) (Fin b) = Fin (max a b)"
  by (simp add: Math_max_def max_def)

text \<open>The progress analytics of the example users.\<close>

lemma twoScoresData_progress:
  assumes "calculateProgressAnalytics readinessNow (orDefault (ud_interviews twoScoresData) [])
    = Inr p"
  shows "p_averageScore p = Fin 63" and "p_consistency p = Fin 98"
    and "p_improvement p = Fin (- 4)"
proof -
  let ?xs = "orDefault (ud_interviews twoScoresData) []"
  have ne: "?xs \<noteq> []" and len: "length ?xs = 2"
    by (simp_all add: twoScoresData_def orDefault_def)
  have vs: "map (\<lambda>i. js_or (score i) (JNumber (Fin 0))) (sort_key createdAt ?xs)
      = [JNumber (Fin 65), JNumber (Fin 61)]"
    by (simp add: twoScoresData_def orDefault_def msPerDay_def js_or_def)
  show "p_averageScore p = Fin 63"
    by (simp add: p_averageScore_eq [OF assms ne] vs calculateAverageScore_eq validNumbers_Cons
        reduce_sum_def ofNat_def)
  show "p_consistency p = Fin 98"
    by (simp add: p_consistency_eq [OF assms ne] vs calculateStandardDeviation_eq
        validNumbers_Cons reduce_sum_def ofNat_def fsub_def)
  show "p_improvement p = Fin (- 4)"
    by (simp add: p_improvement_eq [OF assms ne] vs len calculateAverageScore_eq
        validNumbers_Cons reduce_sum_def ofNat_def fsub_def)
qed

lemma futureDatedData_progress:
  assumes "calculateProgressAnalytics readinessNow (orDefault (ud_interviews futureDatedData) [])
    = Inr p"
  shows "p_averageScore p = Fin 70" and "p_consistency p = Fin 100"
    and "p_improvement p = Fin 70"
proof -
  let ?xs = "orDefault (ud_interviews futureDatedData) []"
  have ne: "?xs \<noteq> []" and len: "length ?xs = 1"
    by (simp_all add: futureDatedData_def orDefault_def)
  have vs: "map (\<lambda>i. js_or (score i) (JNumber (Fin 0))) (sort_key createdAt ?xs)
      = [JNumber (Fin 70)]"
    by (simp add: futureDatedData_def orDefault_def msPerDay_def js_or_def)
  show "p_averageScore p = Fin 70"
    by (simp add: p_averageScore_eq [OF assms ne] vs calculateAverageScore_eq validNumbers_Cons
        reduce_sum_def ofNat_def)
  show "p_consistency p = Fin 100"
    by (simp add: p_consistency_eq [OF assms ne] vs calculateStandardDeviation_eq
        validNumbers_Cons reduce_sum_def ofNat_def fsub_def)
  show "p_improvement p = Fin 70"
    by (simp add: p_improvement_eq [OF assms ne] vs len calculateAverageScore_eq
        validNumbers_Cons reduce_sum_def ofNat_def fsub_def)
qed

lemma outOfRangeData_progress:
  assumes "calculateProgressAnalytics readinessNow (orDefault (ud_interviews outOfRangeData) [])
    = Inr p"
  shows "p_averageScore p = Fin 150" and "p_consistency p = Fin (- 50)"
    and "p_improvement p = Fin 300"
proof -
  let ?xs = "orDefault (ud_interviews outOfRangeData) []"
  have ne: "?xs \<noteq> []" and len: "length ?xs = 2"
    by (simp_all add: outOfRangeData_def orDefault_def)
  have vs: "map (\<lambda>i. js_or (score i) (JNumber (Fin 0))) (sort_key createdAt ?xs)
      = [JNumber (Fin 0), JNumber (Fin 300)]"
    by (simp add: outOfRangeData_def orDefault_def msPerDay_def js_or_def)
  show "p_averageScore p = Fin 150"
    by (simp add: p_averageScore_eq [OF assms ne] vs calculateAverageScore_eq validNumbers_Cons
        reduce_sum_def ofNat_def)
  show "p_consistency p = Fin (- 50)"
    by (simp add: p_consistency_eq [OF assms ne] vs calculateStandardDeviation_eq
        validNumbers_Cons reduce_sum_def ofNat_def fsub_def)
  show "p_improvement p = Fin 300"
    by (simp add: p_improvement_eq [OF assms ne] vs len calculateAverageScore_eq
        validNumbers_Cons reduce_sum_def ofNat_def fsub_def)
qed

lemma steadyData_progress:
  assumes "calculateProgressAnalytics readinessNow (orDefault (ud_interviews steadyData) [])
    = Inr p"
  shows "p_averageScore p = Fin 80" and "p_consistency p = Fin 100"
    and "p_improvement p = Fin 0"
proof -
  let ?xs = "orDefault (ud_interviews steadyData) []"
  have ne: "?xs \<noteq> []" and len: "length ?xs = 2"
    by (simp_all add: steadyData_def orDefault_def)
  have vs: "map (\<lambda>i. js_or (score i) (JNumber (Fin 0))) (sort_key createdAt ?xs)
      = [JNumber (Fin 80), JNumber (Fin 80)]"
    by (simp add: steadyData_def orDefault_def msPerDay_def js_or_def)
  show "p_averageScore p = Fin 80"
    by (simp add: p_averageScore_eq [OF assms ne] vs calculateAverageScore_eq validNumbers_Cons
        reduce_sum_def ofNat_def)
  show "p_consistency p = Fin 100"
    by (simp add: p_consistency_eq [OF assms ne] vs calculateStandardDeviation_eq
        validNumbers_Cons reduce_sum_def ofNat_def fsub_def)
  show "p_improvement p = Fin 0"
    by (simp add: p_improvement_eq [OF assms ne] vs len calculateAverageScore_eq
        validNumbers_Cons reduce_sum_def ofNat_def fsub_def)
qed

lemma example_users_return:
  "\<exists>p. calculateProgressAnalytics readinessNow (orDefault (ud_interviews twoScoresData) []) = Inr p"
  "\<exists>p. calculateProgressAnalytics readinessNow (orDefault (ud_interviews futureDatedData) []) = Inr p"
  "\<exists>p. calculateProgressAnalytics readinessNow (orDefault (ud_interviews outOfRangeData) []) = Inr p"
  "\<exists>p. calculateProgressAnalytics readinessNow (orDefault (ud_interviews steadyData) []) = Inr p"
  by (rule calculateProgressAnalytics_returns,
      simp add: twoScoresData_def futureDatedData_def outOfRangeData_def steadyData_def
        orDefault_def objectPrototypeNames_def)+

lemma twoScoresData_score:
  assumes "calculateReadinessScore readinessNow twoScoresData = Inr r"
  shows "rs_readinessScore r = Fin 54"
proof -
  from example_users_return(1) obtain p where
    p: "calculateProgressAnalytics readinessNow (orDefault (ud_interviews twoScoresData) []) = Inr p"
    by blast
  have c: "length (filter (\<lambda>i. readinessNow - 30 * msPerDay \<le> createdAt i)
      (orDefault (ud_interviews twoScoresData) [])) = 2"
    "length (orDefault (ud_skills twoScoresData) []) = 5"
    by (simp_all add: twoScoresData_def orDefault_def readinessNow_def msPerDay_def)
  show ?thesis
    by (simp add: rs_readinessScore_eq [OF p assms] c twoScoresData_progress [OF p] ofNat_def
        fl_step_9 fl_step_26 fl_step_27 fl_step_28 fl_step_29 fl_step_30 fl_step_31 fl_step_32
        fl_step_33 fl_step_34 fl_step_35 fl_step_36 fl_step_37)
qed

lemma futureDatedData_breakdown:
  assumes "calculateReadinessScore readinessNow futureDatedData = Inr r"
  shows "rs_breakdown r =
     \<lparr> b_practiceFrequency = Fin 10, b_averageScore = Fin 70, b_consistency = Fin 100,
       b_skillCoverage = Fin 0, b_recentImprovement = Fin 100 \<rparr>"
proof -
  from example_users_return(2) obtain p where
    p: "calculateProgressAnalytics readinessNow (orDefault (ud_interviews futureDatedData) [])
      = Inr p"
    by blast
  have c: "length (filter (\<lambda>i. readinessNow - 30 * msPerDay \<le> createdAt i)
      (orDefault (ud_interviews futureDatedData) [])) = 1"
    "length (orDefault (ud_skills futureDatedData) []) = 0"
    by (simp_all add: futureDatedData_def orDefault_def readinessNow_def msPerDay_def)
  show ?thesis
    by (simp add: rs_breakdown_eq [OF p assms] c futureDatedData_progress [OF p] ofNat_def)
qed

lemma outOfRangeData_breakdown:
  assumes "calculateReadinessScore readinessNow outOfRangeData = Inr r"
  shows "rs_breakdown r =
     \<lparr> b_practiceFrequency = Fin 20, b_averageScore = Fin 150, b_consistency = Fin (- 50),
       b_skillCoverage = Fin 0, b_recentImprovement = Fin 100 \<rparr>"
proof -
  from example_users_return(3) obtain p where
    p: "calculateProgressAnalytics readinessNow (orDefault (ud_interviews outOfRangeData) [])
      = Inr p"
    by blast
  have c: "length (filter (\<lambda>i. readinessNow - 30 * msPerDay \<le> createdAt i)
      (orDefault (ud_interviews outOfRangeData) [])) = 2"
    "length (orDefault (ud_skills outOfRangeData) []) = 0"
    by (simp_all add: outOfRangeData_def orDefault_def readinessNow_def msPerDay_def)
  show ?thesis
    by (simp add: rs_breakdown_eq [OF p assms] c outOfRangeData_progress [OF p] ofNat_def)
qed

text \<open>
  Claim C5, as stated, fails in two places. For interviews scored 65 and 61,
  both recent, and five skills, the components are 20, 63, 98, 50 and 46 and the
  claimed score is \<open>round(54.5) = 55\<close>, level Moderate; the code adds the five
  products in double arithmetic, reaches \<open>54.49999999999999\<close> and returns 54,
  level Needs Work. For a single interview dated one day after the current time
  no interview lies in the trailing 30 days, so the claimed practice frequency
  is 0; the code has no upper bound on the date and reports 10.
\<close>

theorem calculateReadinessScore_counterexample:
  "map_sum id p_averageScore
       (calculateProgressAnalytics readinessNow (orDefault (ud_interviews twoScoresData) []))
     = Inr (Fin 63)
   \<and> map_sum id p_consistency
       (calculateProgressAnalytics readinessNow (orDefault (ud_interviews twoScoresData) []))
     = Inr (Fin 98)
   \<and> map_sum id p_improvement
       (calculateProgressAnalytics readinessNow (orDefault (ud_interviews twoScoresData) []))
     = Inr (Fin (- 4))
   \<and> length (orDefault (ud_interviews twoScoresData) []) = 2
   \<and> length (orDefault (ud_skills twoScoresData) []) = 5
   \<and> round (0.2 * min (10 * 2) 100 + 0.3 * 63 + 0.15 * 98 + 0.2 * min (100 * 5 / 10) 100
            + 0.15 * min (max (50 + (- 4)) 0) 100 :: real) = 55
   \<and> map_sum id rs_readinessScore (calculateReadinessScore readinessNow twoScoresData)
     = Inr (Fin 54)
   \<and> map_sum id rs_readinessLevel (calculateReadinessScore readinessNow twoScoresData)
     = Inr ''Needs Work''
   \<and> map createdAt (orDefault (ud_interviews futureDatedData) []) = [readinessNow + msPerDay]
   \<and> map_sum id rs_breakdown (calculateReadinessScore readinessNow futureDatedData)
     = Inr \<lparr> b_practiceFrequency = Fin 10, b_averageScore = Fin 70, b_consistency = Fin 100,
             b_skillCoverage = Fin 0, b_recentImprovement = Fin 100 \<rparr>"
proof -
  from example_users_return(1) obtain p where
    p: "calculateProgressAnalytics readinessNow (orDefault (ud_interviews twoScoresData) []) = Inr p"
    by blast
  from calculateReadinessScore_returns [OF p] obtain r where
    r: "calculateReadinessScore readinessNow twoScoresData = Inr r"
    by blast
  from example_users_return(2) obtain p' where
    p': "calculateProgressAnalytics readinessNow (orDefault (ud_interviews futureDatedData) [])
      = Inr p'"
    by blast
  from calculateReadinessScore_returns [OF p'] obtain r' where
    r': "calculateReadinessScore readinessNow futureDatedData = Inr r'"
    by blast
  have c1: "map_sum id p_averageScore
       (calculateProgressAnalytics readinessNow (orDefault (ud_interviews twoScoresData) []))
     = Inr (Fin 63)"
    and c2: "map_sum id p_consistency
       (calculateProgressAnalytics readinessNow (orDefault (ud_interviews twoScoresData) []))
     = Inr (Fin 98)"
    and c3: "map_sum id p_improvement
       (calculateProgressAnalytics readinessNow (orDefault (ud_interviews twoScoresData) []))
     = Inr (Fin (- 4))"
    by (simp_all add: p twoScoresData_progress [OF p])
  have c4: "length (orDefault (ud_interviews twoScoresData) []) = 2"
    and c5: "length (orDefault (ud_skills twoScoresData) []) = 5"
    by (simp_all add: twoScoresData_def orDefault_def)
  have c6: "round (0.2 * min (10 * 2) 100 + 0.3 * 63 + 0.15 * 98 + 0.2 * min (100 * 5 / 10) 100
            + 0.15 * min (max (50 + (- 4)) 0) 100 :: real) = 55"
    by (simp add: round_def)
  have c7: "map_sum id rs_readinessScore (calculateReadinessScore readinessNow twoScoresData)
     = Inr (Fin 54)"
    by (simp add: r twoScoresData_score [OF r])
  have c8: "map_sum id rs_readinessLevel (calculateReadinessScore readinessNow twoScoresData)
     = Inr ''Needs Work''"
    by (simp add: r rs_readinessLevel_eq [OF r] twoScoresData_score [OF r] readinessLevelOf_def)
  have c9: "map createdAt (orDefault (ud_interviews futureDatedData) [])
      = [readinessNow + msPerDay]"
    by (simp add: futureDatedData_def orDefault_def readinessNow_def)
  have c10: "map_sum id rs_breakdown (calculateReadinessScore readinessNow futureDatedData)
     = Inr \<lparr> b_practiceFrequency = Fin 10, b_averageScore = Fin 70, b_consistency = Fin 100,
             b_skillCoverage = Fin 0, b_recentImprovement = Fin 100 \<rparr>"
    by (simp add: r' futureDatedData_breakdown [OF r'])
  from c1 c2 c3 c4 c5 c6 c7 c8 c9 c10 show ?thesis by blast
qed

text \<open>
  Claim C5, amended. \<open>calculateReadinessScore\<close> returns a result for every user
  none of whose interviews lists a skill named like a member of
  \<open>Object.prototype\<close>. Whenever it returns a result, the progress analytics \<open>p\<close>
  of the interviews exist and
  \<^item> practiceFrequency is \<open>min(10 * c, 100)\<close>, where \<open>c\<close> counts the interviews
    created at or after thirty days before the current time, those dated after
    the current time included;
  \<^item> averageScore and consistency are those of \<open>p\<close>;
  \<^item> skillCoverage is \<open>min((skillCount / 10) * 100, 100)\<close>;
  \<^item> recentImprovement is \<open>min(max(50 + improvement, 0), 100)\<close>;
  \<^item> readinessScore is \<open>Math.round\<close> of the sum, taken from left to right in
    double arithmetic, of the five components times the doubles nearest 0.2, 0.3,
    0.15, 0.2 and 0.15;
  \<^item> readinessLevel follows the thresholds 85, 70, 55 and 40 on readinessScore.
\<close>

theorem calculateReadinessScore_spec:
  "((\<forall>i\<in>set (orDefault (ud_interviews ud) []). \<forall>s\<in>set (orDefault (skills i) []).
        s \<notin> set objectPrototypeNames)
      \<longrightarrow> (\<exists>r'. calculateReadinessScore now ud = Inr r'))
   \<and> (calculateReadinessScore now ud = Inr r \<longrightarrow>
        (\<exists>p. calculateProgressAnalytics now (orDefault (ud_interviews ud) []) = Inr p
           \<and> (let recent = length (filter (\<lambda>i. now - 30 * msPerDay \<le> createdAt i)
                                          (orDefault (ud_interviews ud) []));
                   practiceFrequency = Math_min (fmul (ofNat recent) (Fin 10)) (Fin 100);
                   skillCoverage =
                     Math_min (fmul (fdiv (ofNat (length (orDefault (ud_skills ud) []))) (Fin 10))
                                    (Fin 100)) (Fin 100);
                   recentImprovement =
                     Math_min (Math_max (fadd (Fin 50) (p_improvement p)) (Fin 0)) (Fin 100)
               in rs_readinessScore r
                    = Math_round
                        (fadd (fadd (fadd (fadd (fmul practiceFrequency (fl 0.2))
                                                (fmul (p_averageScore p) (fl 0.3)))
                                          (fmul (p_consistency p) (fl 0.15)))
                                    (fmul skillCoverage (fl 0.2)))
                              (fmul recentImprovement (fl 0.15)))
                \<and> rs_breakdown r
                    = \<lparr> b_practiceFrequency = Math_round practiceFrequency,
                        b_averageScore = Math_round (p_averageScore p),
                        b_consistency = Math_round (p_consistency p),
                        b_skillCoverage = Math_round skillCoverage,
                        b_recentImprovement = Math_round recentImprovement \<rparr>
                \<and> rs_readinessLevel r
                    = (if fge (rs_readinessScore r) (Fin 85) then ''Excellent''
                       else if fge (rs_readinessScore r) (Fin 70) then ''Good''
                       else if fge (rs_readinessScore r) (Fin 55) then ''Moderate''
                       else if fge (rs_readinessScore r) (Fin 40) then ''Needs Work''
                       else ''Not Ready''))))"
proof (rule conjI)
  show "(\<forall>i\<in>set (orDefault (ud_interviews ud) []). \<forall>s\<in>set (orDefault (skills i) []).
        s \<notin> set objectPrototypeNames)
      \<longrightarrow> (\<exists>r'. calculateReadinessScore now ud = Inr r')"
  proof
    assume "\<forall>i\<in>set (orDefault (ud_interviews ud) []). \<forall>s\<in>set (orDefault (skills i) []).
        s \<notin> set objectPrototypeNames"
    then obtain p where
      "calculateProgressAnalytics now (orDefault (ud_interviews ud) []) = Inr p"
      using calculateProgressAnalytics_returns by blast
    then show "\<exists>r'. calculateReadinessScore now ud = Inr r'"
      by (rule calculateReadinessScore_returns)
  qed
next
  show "calculateReadinessScore now ud = Inr r \<longrightarrow>
        (\<exists>p. calculateProgressAnalytics now (orDefault (ud_interviews ud) []) = Inr p
           \<and> (let recent = length (filter (\<lambda>i. now - 30 * msPerDay \<le> createdAt i)
                                          (orDefault (ud_interviews ud) []));
                   practiceFrequency = Math_min (fmul (ofNat recent) (Fin 10)) (Fin 100);
                   skillCoverage =
                     Math_min (fmul (fdiv (ofNat (length (orDefault (ud_skills ud) []))) (Fin 10))
                                    (Fin 100)) (Fin 100);
                   recentImprovement =
                     Math_min (Math_max (fadd (Fin 50) (p_improvement p)) (Fin 0)) (Fin 100)
               in rs_readinessScore r
                    = Math_round
                        (fadd (fadd (fadd (fadd (fmul practiceFrequency (fl 0.2))
                                                (fmul (p_averageScore p) (fl 0.3)))
                                          (fmul (p_consistency p) (fl 0.15)))
                                    (fmul skillCoverage (fl 0.2)))
                              (fmul recentImprovement (fl 0.15)))
                \<and> rs_breakdown r
                    = \<lparr> b_practiceFrequency = Math_round practiceFrequency,
                        b_averageScore = Math_round (p_averageScore p),
                        b_consistency = Math_round (p_consistency p),
                        b_skillCoverage = Math_round skillCoverage,
                        b_recentImprovement = Math_round recentImprovement \<rparr>
                \<and> rs_readinessLevel r
                    = (if fge (rs_readinessScore r) (Fin 85) then ''Excellent''
                       else if fge (rs_readinessScore r) (Fin 70) then ''Good''
                       else if fge (rs_readinessScore r) (Fin 55) then ''Moderate''
                       else if fge (rs_readinessScore r) (Fin 40) then ''Needs Work''
                       else ''Not Ready'')))"
  proof
    assume r: "calculateReadinessScore now ud = Inr r"
    then obtain p where
      p: "calculateProgressAnalytics now (orDefault (ud_interviews ud) []) = Inr p"
      using calculateReadinessScore_progress by blast
    have "let recent = length (filter (\<lambda>i. now - 30 * msPerDay \<le> createdAt i)
                                          (orDefault (ud_interviews ud) []));
                   practiceFrequency = Math_min (fmul (ofNat recent) (Fin 10)) (Fin 100);
                   skillCoverage =
                     Math_min (fmul (fdiv (ofNat (length (orDefault (ud_skills ud) []))) (Fin 10))
                                    (Fin 100)) (Fin 100);
                   recentImprovement =
                     Math_min (Math_max (fadd (Fin 50) (p_improvement p)) (Fin 0)) (Fin 100)
               in rs_readinessScore r
                    = Math_round
                        (fadd (fadd (fadd (fadd (fmul practiceFrequency (fl 0.2))
                                                (fmul (p_averageScore p) (fl 0.3)))
                                          (fmul (p_consistency p) (fl 0.15)))
                                    (fmul skillCoverage (fl 0.2)))
                              (fmul recentImprovement (fl 0.15)))
                \<and> rs_breakdown r
                    = \<lparr> b_practiceFrequency = Math_round practiceFrequency,
                        b_averageScore = Math_round (p_averageScore p),
                        b_consistency = Math_round (p_consistency p),
                        b_skillCoverage = Math_round skillCoverage,
                        b_recentImprovement = Math_round recentImprovement \<rparr>
                \<and> rs_readinessLevel r
                    = (if fge (rs_readinessScore r) (Fin 85) then ''Excellent''
                       else if fge (rs_readinessScore r) (Fin 70) then ''Good''
                       else if fge (rs_readinessScore r) (Fin 55) then ''Moderate''
                       else if fge (rs_readinessScore r) (Fin 40) then ''Needs Work''
                       else ''Not Ready'')"
      unfolding Let_def
      using rs_readinessScore_eq [OF p r] rs_breakdown_eq [OF p r] rs_readinessLevel_eq [OF r]
      by (simp only: readinessLevelOf_def)
    with p show "\<exists>p. calculateProgressAnalytics now (orDefault (ud_interviews ud) []) = Inr p
           \<and> (let recent = length (filter (\<lambda>i. now - 30 * msPerDay \<le> createdAt i)
                                          (orDefault (ud_interviews ud) []));
                   practiceFrequency = Math_min (fmul (ofNat recent) (Fin 10)) (Fin 100);
                   skillCoverage =
                     Math_min (fmul (fdiv (ofNat (length (orDefault (ud_skills ud) []))) (Fin 10))
                                    (Fin 100)) (Fin 100);
                   recentImprovement =
                     Math_min (Math_max (fadd (Fin 50) (p_improvement p)) (Fin 0)) (Fin 100)
               in rs_readinessScore r
                    = Math_round
                        (fadd (fadd (fadd (fadd (fmul practiceFrequency (fl 0.2))
                                                (fmul (p_averageScore p) (fl 0.3)))
                                          (fmul (p_consistency p) (fl 0.15)))
                                    (fmul skillCoverage (fl 0.2)))
                              (fmul recentImprovement (fl 0.15)))
                \<and> rs_breakdown r
                    = \<lparr> b_practiceFrequency = Math_round practiceFrequency,
                        b_averageScore = Math_round (p_averageScore p),
                        b_consistency = Math_round (p_consistency p),
                        b_skillCoverage = Math_round skillCoverage,
                        b_recentImprovement = Math_round recentImprovement \<rparr>
                \<and> rs_readinessLevel r
                    = (if fge (rs_readinessScore r) (Fin 85) then ''Excellent''
                       else if fge (rs_readinessScore r) (Fin 70) then ''Good''
                       else if fge (rs_readinessScore r) (Fin 55) then ''Moderate''
                       else if fge (rs_readinessScore r) (Fin 40) then ''Needs Work''
                       else ''Not Ready''))"
      by blast
  qed
qed

theorem calculateReadinessScore_spec_witness:
  "map_sum id rs_readinessScore (calculateReadinessScore readinessNow steadyData) = Inr (Fin 61)
   \<and> map_sum id rs_readinessLevel (calculateReadinessScore readinessNow steadyData)
     = Inr ''Moderate''"
proof -
  have names: "\<forall>i\<in>set (orDefault (ud_interviews steadyData) []).
      \<forall>s\<in>set (orDefault (skills i) []). s \<notin> set objectPrototypeNames"
    by (simp add: steadyData_def orDefault_def objectPrototypeNames_def)
  with calculateReadinessScore_spec [of steadyData readinessNow]
  obtain r where r: "calculateReadinessScore readinessNow steadyData = Inr r"
    by blast
  with calculateReadinessScore_spec [of steadyData readinessNow r]
  obtain p where
    p: "calculateProgressAnalytics readinessNow (orDefault (ud_interviews steadyData) []) = Inr p"
    and v: "let recent = length (filter (\<lambda>i. readinessNow - 30 * msPerDay \<le> createdAt i)
                                          (orDefault (ud_interviews steadyData) []));
                   practiceFrequency = Math_min (fmul (ofNat recent) (Fin 10)) (Fin 100);
                   skillCoverage =
                     Math_min (fmul (fdiv (ofNat (length (orDefault (ud_skills steadyData) [])))
                                          (Fin 10))
                                    (Fin 100)) (Fin 100);
                   recentImprovement =
                     Math_min (Math_max (fadd (Fin 50) (p_improvement p)) (Fin 0)) (Fin 100)
               in rs_readinessScore r
                    = Math_round
                        (fadd (fadd (fadd (fadd (fmul practiceFrequency (fl 0.2))
                                                (fmul (p_averageScore p) (fl 0.3)))
                                          (fmul (p_consistency p) (fl 0.15)))
                                    (fmul skillCoverage (fl 0.2)))
                              (fmul recentImprovement (fl 0.15)))
                \<and> rs_breakdown r
                    = \<lparr> b_practiceFrequency = Math_round practiceFrequency,
                        b_averageScore = Math_round (p_averageScore p),
                        b_consistency = Math_round (p_consistency p),
                        b_skillCoverage = Math_round skillCoverage,
                        b_recentImprovement = Math_round recentImprovement \<rparr>
                \<and> rs_readinessLevel r
                    = (if fge (rs_readinessScore r) (Fin 85) then ''Excellent''
                       else if fge (rs_readinessScore r) (Fin 70) then ''Good''
                       else if fge (rs_readinessScore r) (Fin 55) then ''Moderate''
                       else if fge (rs_readinessScore r) (Fin 40) then ''Needs Work''
                       else ''Not Ready'')"
    by blast
  have c: "length (filter (\<lambda>i. readinessNow - 30 * msPerDay \<le> createdAt i)
      (orDefault (ud_interviews steadyData) [])) = 2"
    "length (orDefault (ud_skills steadyData) []) = 5"
    by (simp_all add: steadyData_def orDefault_def readinessNow_def msPerDay_def)
  have s: "rs_readinessScore r = Fin 61"
    using v
    by (simp add: Let_def c steadyData_progress [OF p] ofNat_def
        fl_step_9 fl_step_26 fl_step_27 fl_step_28 fl_step_30 fl_step_32 fl_step_40 fl_step_43
        fl_step_45 fl_step_46 fl_step_47)
  have "rs_readinessLevel r = ''Moderate''"
    using v by (simp add: Let_def s)
  with s r show ?thesis by simp
qed

text \<open>
  Claim C6 does not hold of the code. For interviews scored 0 and 300 the
  average is 150 and the standard deviation 150, so the averageScore component
  is 150 and the consistency component \<open>100 - 150 = -50\<close>: both leave the range
  from 0 to 100, which the comments \<open>Average score (0-100)\<close> and
  \<open>Consistency score (0-100)\<close> give for them and which the three other
  components are clamped to.
\<close>

theorem readiness_components_out_of_range:
  "map score (orDefault (ud_interviews outOfRangeData) [])
     = [JNumber (Fin 0), JNumber (Fin 300)]
   \<and> map_sum id p_averageScore
       (calculateProgressAnalytics readinessNow (orDefault (ud_interviews outOfRangeData) []))
     = Inr (Fin 150)
   \<and> map_sum id p_consistency
       (calculateProgressAnalytics readinessNow (orDefault (ud_interviews outOfRangeData) []))
     = Inr (Fin (- 50))
   \<and> map_sum id rs_breakdown (calculateReadinessScore readinessNow outOfRangeData)
     = Inr \<lparr> b_practiceFrequency = Fin 20, b_averageScore = Fin 150,
             b_consistency = Fin (- 50), b_skillCoverage = Fin 0,
             b_recentImprovement = Fin 100 \<rparr>
   \<and> \<not> fle (Fin 150) (Fin 100)
   \<and> \<not> fle (Fin 0) (Fin (- 50))"
proof -
  from example_users_return(3) obtain p where
    p: "calculateProgressAnalytics readinessNow (orDefault (ud_interviews outOfRangeData) [])
      = Inr p"
    by blast
  from calculateReadinessScore_returns [OF p] obtain r where
    r: "calculateReadinessScore readinessNow outOfRangeData = Inr r"
    by blast
  have c1: "map score (orDefault (ud_interviews outOfRangeData) [])
     = [JNumber (Fin 0), JNumber (Fin 300)]"
    by (simp add: outOfRangeData_def orDefault_def)
  have c2: "map_sum id p_averageScore
       (calculateProgressAnalytics readinessNow (orDefault (ud_interviews outOfRangeData) []))
     = Inr (Fin 150)"
    and c3: "map_sum id p_consistency
       (calculateProgressAnalytics readinessNow (orDefault (ud_interviews outOfRangeData) []))
     = Inr (Fin (- 50))"
    by (simp_all add: p outOfRangeData_progress [OF p])
  have c4: "map_sum id rs_breakdown (calculateReadinessScore readinessNow outOfRangeData)
     = Inr \<lparr> b_practiceFrequency = Fin 20, b_averageScore = Fin 150,
             b_consistency = Fin (- 50), b_skillCoverage = Fin 0,
             b_recentImprovement = Fin 100 \<rparr>"
    by (simp add: r outOfRangeData_breakdown [OF r])
  have c5: "\<not> fle (Fin 150) (Fin 100)" and c6: "\<not> fle (Fin 0) (Fin (- 50))"
    by simp_all
  from c1 c2 c3 c4 c5 c6 show ?thesis by blast
qed

end
